theory Spec2Isabelle
  imports Complex_Main "HOL-Library.AList"
begin

section \<open>Python values, exceptions and the collaborators of \<open>ibm_backend.py\<close>\<close>

text \<open>
  The values that travel through keyword arguments and server responses: \<open>None\<close>,
  booleans, integers, strings, lists and dictionaries (a dictionary is an association
  list, keys in insertion order).
\<close>

datatype pyval =
    PNone
  | PBool bool
  | PInt int
  | PStr string
  | PList "pyval list"
  | PDict "(string \<times> pyval) list"

text \<open>Python's truth value of an object, as \<open>if x:\<close> tests it.\<close>

fun truthy :: "pyval \<Rightarrow> bool" where
  "truthy PNone = False"
| "truthy (PBool b) = b"
| "truthy (PInt i) = (i \<noteq> 0)"
| "truthy (PStr s) = (s \<noteq> [])"
| "truthy (PList xs) = (xs \<noteq> [])"
| "truthy (PDict kvs) = (kvs \<noteq> [])"

text \<open>Every exception class the module raises or lets through, with its message.\<close>

datatype py_exception =
    ApiError string
  | TypeError string
  | AttributeError string
  | IndexError string
  | BackendPropertyError string
  | IBMBackendError string
  | IBMBackendValueError string
  | IBMBackendJobLimitError string
  | IBMBackendApiError string
  | IBMBackendApiProtocolError string

text \<open>\<open>sub in s\<close> on Python strings: \<open>sub\<close> occurs in \<open>s\<close> as a contiguous piece.\<close>

fun str_in :: "string \<Rightarrow> string \<Rightarrow> bool" where
  "str_in sub [] = (sub = [])"
| "str_in sub (c # cs) = (take (length sub) (c # cs) = sub \<or> str_in sub cs)"

datatype datetime = Datetime int

text \<open>
  Backend configuration (\<open>QasmBackendConfiguration\<close> / \<open>PulseBackendConfiguration\<close>):
  the attributes the module reads. An attribute read with \<open>getattr(..., default)\<close> or
  tested with \<open>hasattr\<close> is an option, \<open>None\<close> when the attribute is absent. Floats
  are kept as rationals; nothing below computes with them.
\<close>

record BackendConfiguration =
  backend_name :: string
  simulator :: bool
  simulation_method :: "string option"
  measure_esp_enabled :: "bool option"
  max_experiments :: "int option"
  basis_gates :: "string list option"
  supported_instructions :: "string list option"
  dt :: "rat option"

text \<open>Circuits: an instruction has a name; \<open>Delay\<close> carries its duration in \<open>dt\<close>.\<close>

datatype instruction = Gate string | Delay int

fun instr_name :: "instruction \<Rightarrow> string" where
  "instr_name (Gate n) = n"
| "instr_name (Delay d) = ''delay''"

type_synonym circuit_data = "(instruction \<times> nat list \<times> nat list) list"

datatype circuit = QuantumCircuit circuit_data | Schedule nat

datatype circuits_arg = One circuit | Many "circuit list"

datatype BackendProperties = BackendProperties pyval
datatype PulseDefaults = PulseDefaults pyval
datatype BackendStatus = BackendStatus pyval
datatype BackendReservation = BackendReservation pyval
datatype qobj = Qobj pyval

text \<open>
  \<open>BackendJobLimit\<close> (module \<open>backendjoblimit\<close>): the two attributes the backend reads.
\<close>

record BackendJobLimit =
  maximum_jobs :: "int option"
  active_jobs :: int

datatype IBMJob =
    IBMCircuitJob qobj "(string \<times> pyval) list"
  | IBMCompositeJob "circuit list list" "(string \<times> pyval) list" "string option" pyval

text \<open>The requests sent through the account client, and the warnings issued.\<close>

datatype api_call =
    Job_submit string pyval "string option" pyval "string option" "bool option"
  | Backend_properties string "datetime option"
  | Backend_status string
  | Backend_pulse_defaults string
  | Backend_job_limit string
  | Backend_reservations string "datetime option" "datetime option"

datatype warning = UserWarning string | DeprecationWarning string

text \<open>
  The collaborators, none of which is defined in this module: the account client
  (a failed request raises \<open>ApiError\<close>, here \<open>Inl\<close> of its text), the constructors
  and decoders of the model classes, \<open>assemble\<close>, and the helpers of \<open>utils\<close>.
  A constructor called inside \<open>try ... except TypeError\<close> fails with \<open>Inl\<close> of the
  \<open>TypeError\<close>'s text; the others fail with any exception.
\<close>

record env =
  job_submit :: "string \<Rightarrow> pyval \<Rightarrow> string option \<Rightarrow> pyval \<Rightarrow> string option
                  \<Rightarrow> bool option \<Rightarrow> string + (string \<times> pyval) list"
  backend_properties :: "string \<Rightarrow> datetime option \<Rightarrow> string + pyval"
  backend_status :: "string \<Rightarrow> string + pyval"
  backend_pulse_defaults :: "string \<Rightarrow> string + pyval"
  backend_job_limit :: "string \<Rightarrow> string + pyval"
  backend_reservations :: "string \<Rightarrow> datetime option \<Rightarrow> datetime option \<Rightarrow> string + pyval"
  new_IBMCircuitJob :: "qobj \<Rightarrow> (string \<times> pyval) list \<Rightarrow> string + IBMJob"
  new_BackendJobLimit :: "pyval \<Rightarrow> string + BackendJobLimit"
  BackendStatus_from_dict :: "pyval \<Rightarrow> string + BackendStatus"
  BackendProperties_from_dict :: "pyval \<Rightarrow> py_exception + BackendProperties"
  PulseDefaults_from_dict :: "pyval \<Rightarrow> py_exception + PulseDefaults"
  decode_backend_properties :: "pyval \<Rightarrow> py_exception + pyval"
  decode_pulse_defaults :: "pyval \<Rightarrow> py_exception + pyval"
  utc_to_local_all :: "pyval \<Rightarrow> pyval"
  local_to_utc :: "datetime \<Rightarrow> datetime"
  convert_reservation_data :: "pyval \<Rightarrow> string \<Rightarrow> py_exception + BackendReservation list"
  gate_length :: "BackendProperties \<Rightarrow> string \<Rightarrow> nat \<Rightarrow> py_exception + rat"
  duration_in_dt :: "rat \<Rightarrow> rat \<Rightarrow> int"
  assemble :: "circuits_arg \<Rightarrow> (string \<times> pyval) list \<Rightarrow> py_exception + qobj"
  provider_jobs :: "int \<Rightarrow> IBMJob list"
  py_str :: "pyval \<Rightarrow> string"

section \<open>The backend object\<close>

text \<open>
  The attributes of an \<open>IBMBackend\<close> instance (\<open>_configuration\<close>, \<open>_properties\<close>,
  \<open>_defaults\<close>, \<open>id_warning_issued\<close>, \<open>options.__dict__\<close>), whether the instance is
  an \<open>IBMSimulator\<close>, and the two traces of its effects: the requests made through
  \<open>_api_client\<close> and the warnings issued, oldest first.
\<close>

record backend =
  configuration_attr :: BackendConfiguration
  properties_attr :: "BackendProperties option"
  defaults_attr :: "PulseDefaults option"
  id_warning_issued :: bool
  options :: "(string \<times> pyval) list"
  is_IBMSimulator :: bool
  api_calls :: "api_call list"
  warnings :: "warning list"
  published :: "(string \<times> IBMJob) list"

definition configuration :: "backend \<Rightarrow> BackendConfiguration" where
  "configuration self = configuration_attr self"

definition name :: "backend \<Rightarrow> string" where
  "name self = backend_name (configuration_attr self)"

definition call_api :: "api_call \<Rightarrow> backend \<Rightarrow> backend" where
  "call_api c self = self\<lparr>api_calls := api_calls self @ [c]\<rparr>"

definition warn :: "warning \<Rightarrow> backend \<Rightarrow> backend" where
  "warn w self = self\<lparr>warnings := warnings self @ [w]\<rparr>"

section \<open>Job limit\<close>

definition job_limit :: "env \<Rightarrow> backend \<Rightarrow> (py_exception + BackendJobLimit) \<times> backend" where
  "job_limit e self =
     (let self1 = call_api (Backend_job_limit (name self)) self in
      case backend_job_limit e (name self) of
        Inl msg \<Rightarrow> (Inl (ApiError msg), self1)
      | Inr api_job_limit \<Rightarrow>
          (case new_BackendJobLimit e api_job_limit of
             Inl err \<Rightarrow>
               (Inl (IBMBackendApiProtocolError
                  (''Unexpected return value received from the server when '' @
                   ''querying job limit data for the backend: '' @ err @ ''.'')), self1)
           | Inr jl \<Rightarrow>
               (Inr (if maximum_jobs jl = Some (- 1) then jl\<lparr>maximum_jobs := None\<rparr> else jl),
                self1)))"

definition remaining_jobs_count :: "env \<Rightarrow> backend \<Rightarrow> (py_exception + int option) \<times> backend" where
  "remaining_jobs_count e self =
     (case job_limit e self of
        (Inl ex, self1) \<Rightarrow> (Inl ex, self1)
      | (Inr jl, self1) \<Rightarrow>
          (case maximum_jobs jl of
             None \<Rightarrow> (Inr None, self1)
           | Some m \<Rightarrow> (Inr (Some (m - active_jobs jl)), self1)))"

section \<open>Metadata accessors\<close>

text \<open>
  \<open>IBMBackend.properties\<close>. The two \<open>isinstance\<close> checks on the arguments are the
  types of \<open>refresh\<close> and \<open>datetime\<close>; a \<open>datetime\<close> object is always true.
\<close>

definition properties ::
  "env \<Rightarrow> backend \<Rightarrow> bool \<Rightarrow> datetime option
     \<Rightarrow> (py_exception + BackendProperties option) \<times> backend" where
  "properties e self refresh datetime0 =
     (let datetime = map_option (local_to_utc e) datetime0 in
      if datetime \<noteq> None \<or> refresh \<or> properties_attr self = None then
        (let self1 = call_api (Backend_properties (name self) datetime) self in
         case backend_properties e (name self) datetime of
           Inl msg \<Rightarrow> (Inl (ApiError msg), self1)
         | Inr api_properties \<Rightarrow>
             if \<not> truthy api_properties then (Inr None, self1)
             else
               (case decode_backend_properties e api_properties of
                  Inl ex \<Rightarrow> (Inl ex, self1)
                | Inr decoded \<Rightarrow>
                    (case BackendProperties_from_dict e (utc_to_local_all e decoded) of
                       Inl ex \<Rightarrow> (Inl ex, self1)
                     | Inr backend_props \<Rightarrow>
                         if datetime \<noteq> None then (Inr (Some backend_props), self1)
                         else (Inr (Some backend_props),
                               self1\<lparr>properties_attr := Some backend_props\<rparr>))))
      else (Inr (properties_attr self), self))"

text \<open>
  \<open>self.properties(...)\<close> as dispatched on the class of the instance:
  \<open>IBMSimulator.properties\<close> returns \<open>None\<close>.
\<close>

definition self_properties ::
  "env \<Rightarrow> backend \<Rightarrow> bool \<Rightarrow> datetime option
     \<Rightarrow> (py_exception + BackendProperties option) \<times> backend" where
  "self_properties e self refresh datetime0 =
     (if is_IBMSimulator self then (Inr None, self)
      else properties e self refresh datetime0)"

definition status :: "env \<Rightarrow> backend \<Rightarrow> (py_exception + BackendStatus) \<times> backend" where
  "status e self =
     (let self1 = call_api (Backend_status (name self)) self in
      case backend_status e (name self) of
        Inl msg \<Rightarrow> (Inl (ApiError msg), self1)
      | Inr api_status \<Rightarrow>
          (case BackendStatus_from_dict e api_status of
             Inl err \<Rightarrow>
               (Inl (IBMBackendApiProtocolError
                  (''Unexpected return value received from the server when '' @
                   ''getting backend status: '' @ err)), self1)
           | Inr st \<Rightarrow> (Inr st, self1)))"

definition defaults ::
  "env \<Rightarrow> backend \<Rightarrow> bool \<Rightarrow> (py_exception + PulseDefaults option) \<times> backend" where
  "defaults e self refresh =
     (if refresh \<or> defaults_attr self = None then
        (let self1 = call_api (Backend_pulse_defaults (name self)) self in
         case backend_pulse_defaults e (name self) of
           Inl msg \<Rightarrow> (Inl (ApiError msg), self1)
         | Inr api_defaults \<Rightarrow>
             if truthy api_defaults then
               (case decode_pulse_defaults e api_defaults of
                  Inl ex \<Rightarrow> (Inl ex, self1)
                | Inr decoded \<Rightarrow>
                    (case PulseDefaults_from_dict e decoded of
                       Inl ex \<Rightarrow> (Inl ex, self1)
                     | Inr d \<Rightarrow> (Inr (Some d), self1\<lparr>defaults_attr := Some d\<rparr>)))
             else (Inr None, self1\<lparr>defaults_attr := None\<rparr>))
      else (Inr (defaults_attr self), self))"

definition reservations ::
  "env \<Rightarrow> backend \<Rightarrow> datetime option \<Rightarrow> datetime option
     \<Rightarrow> (py_exception + BackendReservation list) \<times> backend" where
  "reservations e self start_datetime0 end_datetime0 =
     (let start_datetime = map_option (local_to_utc e) start_datetime0;
          end_datetime = map_option (local_to_utc e) end_datetime0;
          self1 = call_api (Backend_reservations (name self) start_datetime end_datetime) self
      in case backend_reservations e (name self) start_datetime end_datetime of
           Inl msg \<Rightarrow> (Inl (ApiError msg), self1)
         | Inr raw_response \<Rightarrow>
             (case convert_reservation_data e raw_response (name self) of
                Inl ex \<Rightarrow> (Inl ex, self1)
              | Inr rs \<Rightarrow> (Inr rs, self1)))"

definition active_jobs_of :: "env \<Rightarrow> backend \<Rightarrow> int \<Rightarrow> IBMJob list \<times> backend" where
  "active_jobs_of e self limit = (provider_jobs e limit, self)"

section \<open>Submitting a job\<close>

fun to_dict :: "qobj \<Rightarrow> pyval" where
  "to_dict (Qobj d) = d"

definition submit_job ::
  "env \<Rightarrow> backend \<Rightarrow> qobj \<Rightarrow> string option \<Rightarrow> pyval \<Rightarrow> string option \<Rightarrow> bool option
     \<Rightarrow> (py_exception + IBMJob) \<times> backend" where
  "submit_job e self q job_name0 job_tags0 composite_job_id live_data =
     (let qobj_dict = to_dict q;
          self1 = call_api (Job_submit (name self) qobj_dict job_name0 job_tags0
                              composite_job_id live_data) self
      in case job_submit e (name self) qobj_dict job_name0 job_tags0 composite_job_id live_data of
           Inl ex \<Rightarrow>
             if str_in ''Error code: 3458'' ex
             then (Inl (IBMBackendJobLimitError (''Error submitting job: '' @ ex)), self1)
             else (Inl (IBMBackendApiError (''Error submitting job: '' @ ex)), self1)
         | Inr submit_info \<Rightarrow>
             (case map_of submit_info ''error'' of
                Some err \<Rightarrow>
                  (Inl (IBMBackendError (''Error submitting job: '' @ py_str e err)), self1)
              | None \<Rightarrow>
                  (case new_IBMCircuitJob e q submit_info of
                     Inl err \<Rightarrow>
                       (Inl (IBMBackendApiProtocolError
                          (''Unexpected return value received from the server '' @
                           ''when submitting job: '' @ err)), self1)
                   | Inr job \<Rightarrow>
                       (Inr job,
                        self1\<lparr>published := published self1 @ [(''ibm.job.start'', job)]\<rparr>))))"

section \<open>The run configuration\<close>

text \<open>
  \<open>_get_run_config\<close>: the loop over \<open>kwargs.items()\<close>, on a copy of
  \<open>self.options.__dict__\<close>.
\<close>

definition unrecognized_msg :: "string \<Rightarrow> string" where
  "unrecognized_msg key =
     key @ '' is not a recognized runtime option and may be ignored by the backend.''"

fun run_config_loop ::
  "backend \<Rightarrow> (string \<times> pyval) list \<Rightarrow> (string \<times> pyval) list
     \<Rightarrow> (string \<times> pyval) list \<times> backend" where
  "run_config_loop self run_config_dict [] = (run_config_dict, self)"
| "run_config_loop self run_config_dict ((key, val) # kwargs) =
     (if val \<noteq> PNone then
        run_config_loop
          (if key \<notin> set (map fst (options self)) \<and> \<not> is_IBMSimulator self
           then warn (UserWarning (unrecognized_msg key)) self else self)
          (AList.update key val run_config_dict) kwargs
      else run_config_loop self run_config_dict kwargs)"

definition get_run_config ::
  "backend \<Rightarrow> (string \<times> pyval) list \<Rightarrow> (string \<times> pyval) list \<times> backend" where
  "get_run_config self kwargs = run_config_loop self (options self) kwargs"

section \<open>The deprecated \<open>id\<close> instruction\<close>

definition id_deprecated_msg :: string where
  "id_deprecated_msg =
     ''Support for the 'id' instruction has been deprecated '' @
     ''from IBM hardware backends. Any 'id' instructions '' @
     ''will be replaced with their equivalent 'delay' instruction. '' @
     ''Please use the 'delay' instruction instead.''"

definition id_removed_msg :: string where
  "id_removed_msg =
     ''Support for the 'id' instruction has been removed '' @
     ''from IBM hardware backends. Any 'id' instructions '' @
     ''will be replaced with their equivalent 'delay' instruction. '' @
     ''Please use the 'delay' instruction instead.''"

text \<open>
  The inner loop over \<open>enumerate(circuit.data)\<close>. It returns the data as the loop
  left them: when a step raises, the entries before it are already replaced.
\<close>

fun replace_ids ::
  "env \<Rightarrow> backend \<Rightarrow> rat \<Rightarrow> circuit_data \<Rightarrow> (py_exception + unit) \<times> backend \<times> circuit_data"
  where
  "replace_ids e self dt_in_s [] = (Inr (), self, [])"
| "replace_ids e self dt_in_s ((instr, qargs, cargs) # rest) =
     (if instr_name instr = ''id'' then
        (case self_properties e self False None of
           (Inl ex, self1) \<Rightarrow> (Inl ex, self1, (instr, qargs, cargs) # rest)
         | (Inr None, self1) \<Rightarrow>
             (Inl (AttributeError ''NoneType object has no attribute gate_length''), self1,
              (instr, qargs, cargs) # rest)
         | (Inr (Some props), self1) \<Rightarrow>
             (case qargs of
                [] \<Rightarrow> (Inl (IndexError ''list index out of range''), self1,
                       (instr, qargs, cargs) # rest)
              | q0 # _ \<Rightarrow>
                  (case gate_length e props ''sx'' q0 of
                     Inl ex \<Rightarrow> (Inl ex, self1, (instr, qargs, cargs) # rest)
                   | Inr sx_duration \<Rightarrow>
                       (case replace_ids e self1 dt_in_s rest of
                          (r, self2, rest') \<Rightarrow>
                            (r, self2,
                             (Delay (duration_in_dt e sx_duration dt_in_s), qargs, cargs)
                               # rest')))))
      else
        (case replace_ids e self dt_in_s rest of
           (r, self2, rest') \<Rightarrow> (r, self2, (instr, qargs, cargs) # rest')))"

text \<open>The outer loop over the circuits; a \<open>Schedule\<close> is skipped.\<close>

fun replace_in_circuits ::
  "env \<Rightarrow> backend \<Rightarrow> rat \<Rightarrow> circuit list \<Rightarrow> (py_exception + unit) \<times> backend \<times> circuit list"
  where
  "replace_in_circuits e self dt_in_s [] = (Inr (), self, [])"
| "replace_in_circuits e self dt_in_s (Schedule s # cs) =
     (case replace_in_circuits e self dt_in_s cs of
        (r, self2, cs') \<Rightarrow> (r, self2, Schedule s # cs'))"
| "replace_in_circuits e self dt_in_s (QuantumCircuit d # cs) =
     (case replace_ids e self dt_in_s d of
        (Inl ex, self1, d') \<Rightarrow> (Inl ex, self1, QuantumCircuit d' # cs)
      | (Inr u, self1, d') \<Rightarrow>
          (case replace_in_circuits e self1 dt_in_s cs of
             (r, self2, cs') \<Rightarrow> (r, self2, QuantumCircuit d' # cs')))"

definition has_id :: "circuit \<Rightarrow> bool" where
  "has_id c =
     (case c of
        QuantumCircuit d \<Rightarrow> list_ex (\<lambda>(instr, qargs, cargs). instr_name instr = ''id'') d
      | Schedule s \<Rightarrow> False)"

definition as_list :: "circuits_arg \<Rightarrow> circuit list" where
  "as_list circuits0 = (case circuits0 of One c \<Rightarrow> [c] | Many cs \<Rightarrow> cs)"

text \<open>The caller's object after the in-place updates of its circuits.\<close>

definition updated_arg :: "circuits_arg \<Rightarrow> circuit list \<Rightarrow> circuits_arg" where
  "updated_arg circuits0 cs' =
     (case circuits0 of One c \<Rightarrow> One (case cs' of [] \<Rightarrow> c | c' # _ \<Rightarrow> c') | Many cs \<Rightarrow> Many cs')"

definition getattr_list :: "string list option \<Rightarrow> string list" where
  "getattr_list a = (case a of None \<Rightarrow> [] | Some xs \<Rightarrow> xs)"

definition deprecate_id_instruction ::
  "env \<Rightarrow> backend \<Rightarrow> circuits_arg \<Rightarrow> (py_exception + unit) \<times> backend \<times> circuits_arg" where
  "deprecate_id_instruction e self circuits0 =
     (let id_support = (''id'' \<in> set (getattr_list (basis_gates (configuration self))));
          delay_support =
            (''delay'' \<in> set (getattr_list (supported_instructions (configuration self))))
      in if \<not> delay_support then (Inr (), self, circuits0)
         else if \<not> list_ex has_id (as_list circuits0) then (Inr (), self, circuits0)
         else
           (let self1 =
                  (if \<not> id_warning_issued self then
                     (warn (DeprecationWarning
                        (if id_support \<and> delay_support then id_deprecated_msg
                         else id_removed_msg)) self)\<lparr>id_warning_issued := True\<rparr>
                   else self)
            in case dt (configuration self) of
                 None \<Rightarrow>
                   (Inl (AttributeError ''Attribute dt is not defined''), self1, circuits0)
               | Some dt_in_s \<Rightarrow>
                   (case replace_in_circuits e self1 dt_in_s (as_list circuits0) of
                      (r, self2, cs') \<Rightarrow> (r, self2, updated_arg circuits0 cs'))))"

section \<open>Running circuits\<close>

text \<open>The parameters of \<open>IBMBackend.run\<close>; \<open>run_config\<close> holds the extra keywords.\<close>

record run_args =
  circuits :: circuits_arg
  job_name :: "string option"
  job_tags :: pyval
  max_circuits_per_job :: "int option"
  header :: pyval
  shots :: pyval
  memory :: pyval
  qubit_lo_freq :: pyval
  meas_lo_freq :: pyval
  schedule_los :: pyval
  meas_level :: pyval
  meas_return :: pyval
  memory_slots :: pyval
  memory_slot_size :: pyval
  rep_time :: pyval
  rep_delay :: pyval
  init_qubits :: pyval
  parameter_binds :: pyval
  use_measure_esp :: "bool option"
  live_data_enabled :: "bool option"
  run_config :: "(string \<times> pyval) list"

text \<open>
  Modelled from the spec: the tags \<open>validate_job_tags\<close> accepts (the function is
  defined in \<open>utils\<close>, which is not among the sources; the spec speaks of malformed
  tags). Tags are well formed when they are absent (\<open>None\<close>) or a list of strings.
\<close>

fun is_str :: "pyval \<Rightarrow> bool" where
  "is_str (PStr s) = True"
| "is_str _ = False"

fun well_formed_tags :: "pyval \<Rightarrow> bool" where
  "well_formed_tags PNone = True"
| "well_formed_tags (PList tags) = list_all is_str tags"
| "well_formed_tags _ = False"

text \<open>
  Modelled from the spec: \<open>validate_job_tags\<close> of \<open>utils\<close>, not among the sources.
  The spec says that malformed tags fail validation before any network call; the
  function raises the exception class it is given.
\<close>

definition validate_job_tags :: "pyval \<Rightarrow> (string \<Rightarrow> py_exception) \<Rightarrow> py_exception + unit" where
  "validate_job_tags tags exception =
     (if well_formed_tags tags then Inr ()
      else Inl (exception ''job_tags needs to be a list of strings.''))"

text \<open>
  \<open>range(start, stop, step)\<close> for a step other than \<open>0\<close> (\<open>range\<close> raises on \<open>0\<close>;
  \<open>run\<close> reaches it with a true, hence non-zero, \<open>chunk_size\<close>).
\<close>

function py_range :: "int \<Rightarrow> int \<Rightarrow> int \<Rightarrow> int list" where
  "py_range start stop step =
     (if 0 < step \<and> start < stop then start # py_range (start + step) stop step
      else if step < 0 \<and> stop < start then start # py_range (start + step) stop step
      else [])"
  by pat_completeness auto
termination
  by (relation "measure (\<lambda>(start, stop, step).
        nat (if 0 < step then stop - start else start - stop))") auto

declare py_range.simps [simp del]

text \<open>The slice \<open>xs[a:b]\<close>: a negative index counts from the end, both are clipped.\<close>

definition py_slice :: "'a list \<Rightarrow> int \<Rightarrow> int \<Rightarrow> 'a list" where
  "py_slice xs a b =
     (let n = int (length xs);
          lo = (if a < 0 then max 0 (a + n) else min a n);
          hi = (if b < 0 then max 0 (b + n) else min b n)
      in take (nat (hi - lo)) (drop (nat lo) xs))"

definition chunk_size_of :: "BackendConfiguration \<Rightarrow> int option \<Rightarrow> int option" where
  "chunk_size_of cfg max_circuits =
     (case max_experiments cfg of
        Some backend_max \<Rightarrow>
          Some (case max_circuits of None \<Rightarrow> backend_max | Some m \<Rightarrow> min backend_max m)
      | None \<Rightarrow>
          (case max_circuits of
             None \<Rightarrow> None
           | Some m \<Rightarrow> if m \<noteq> 0 then Some m else None))"

definition circuits_list_of :: "circuit list \<Rightarrow> int \<Rightarrow> circuit list list" where
  "circuits_list_of cs chunk_size =
     map (\<lambda>x. py_slice cs x (x + chunk_size)) (py_range 0 (int (length cs)) chunk_size)"

text \<open>
  The keywords written out in the call of \<open>_get_run_config\<close>, and the call itself:
  Python raises \<open>TypeError\<close> when \<open>**run_config\<close> repeats one of them.
\<close>

definition explicit_kwargs :: "run_args \<Rightarrow> bool \<Rightarrow> (string \<times> pyval) list" where
  "explicit_kwargs a esp =
     [(''qobj_header'', header a), (''shots'', shots a), (''memory'', memory a),
      (''qubit_lo_freq'', qubit_lo_freq a), (''meas_lo_freq'', meas_lo_freq a),
      (''schedule_los'', schedule_los a), (''meas_level'', meas_level a),
      (''meas_return'', meas_return a), (''memory_slots'', memory_slots a),
      (''memory_slot_size'', memory_slot_size a), (''rep_time'', rep_time a),
      (''rep_delay'', rep_delay a), (''init_qubits'', init_qubits a),
      (''use_measure_esp'', PBool esp)]"

definition call_kwargs ::
  "string \<Rightarrow> (string \<times> pyval) list \<Rightarrow> (string \<times> pyval) list
     \<Rightarrow> py_exception + (string \<times> pyval) list" where
  "call_kwargs f explicit extra =
     (case filter (\<lambda>k. k \<in> set (map fst explicit)) (map fst extra) of
        [] \<Rightarrow> Inr (explicit @ extra)
      | k # _ \<Rightarrow>
          Inl (TypeError (f @ ''() got multiple values for keyword argument '' @
                          [CHR 0x27] @ k @ [CHR 0x27])))"

definition esp_unsupported_msg :: string where
  "esp_unsupported_msg =
     ''ESP readout not supported on this device. Please make sure the '' @
     ''flag 'use_measure_esp' is unset or set to 'False'.''"

text \<open>
  What \<open>run\<close> does once the run configuration is known: a composite job over the
  chunks, or one assembled payload submitted.
\<close>

definition submit_circuits ::
  "env \<Rightarrow> backend \<Rightarrow> run_args \<Rightarrow> circuits_arg \<Rightarrow> (string \<times> pyval) list
     \<Rightarrow> (py_exception + IBMJob) \<times> backend" where
  "submit_circuits e self a circuits1 run_config_dict =
     (let chunked =
            (case circuits1 of
               One c \<Rightarrow> None
             | Many cs \<Rightarrow>
                 (case chunk_size_of (configuration self) (max_circuits_per_job a) of
                    None \<Rightarrow> None
                  | Some chunk_size \<Rightarrow>
                      if chunk_size \<noteq> 0 \<and> chunk_size < int (length cs)
                      then Some (circuits_list_of cs chunk_size) else None))
      in case chunked of
           Some circuits_list \<Rightarrow>
             (Inr (IBMCompositeJob circuits_list run_config_dict (job_name a) (job_tags a)),
              self)
         | None \<Rightarrow>
             (case assemble e circuits1 run_config_dict of
                Inl ex \<Rightarrow> (Inl ex, self)
              | Inr q \<Rightarrow>
                  submit_job e self q (job_name a) (job_tags a) None (live_data_enabled a)))"

text \<open>\<open>run\<close> after its two validations, with \<open>use_measure_esp\<close> resolved.\<close>

definition run_checked ::
  "env \<Rightarrow> backend \<Rightarrow> run_args \<Rightarrow> bool
     \<Rightarrow> (py_exception + IBMJob) \<times> backend \<times> circuits_arg" where
  "run_checked e self a esp =
     (let sim_method =
            (if simulator (configuration self)
             then simulation_method (configuration self) else None)
      in case (if \<not> simulator (configuration self)
               then deprecate_id_instruction e self (circuits a)
               else (Inr (), self, circuits a)) of
           (Inl ex, self1, circuits1) \<Rightarrow> (Inl ex, self1, circuits1)
         | (Inr u, self1, circuits1) \<Rightarrow>
             (case call_kwargs ''_get_run_config'' (explicit_kwargs a esp) (run_config a) of
                Inl ex \<Rightarrow> (Inl ex, self1, circuits1)
              | Inr kwargs \<Rightarrow>
                  (case get_run_config self1 kwargs of
                     (rc0, self2) \<Rightarrow>
                       (let rc1 = (if truthy (parameter_binds a)
                                   then AList.update ''parameter_binds''
                                          (parameter_binds a) rc0
                                   else rc0);
                            rc2 = (case sim_method of
                                     None \<Rightarrow> rc1
                                   | Some m \<Rightarrow>
                                       if m \<noteq> [] \<and> ''method'' \<notin> set (map fst rc1)
                                       then AList.update ''method'' (PStr m) rc1
                                       else rc1)
                        in case submit_circuits e self2 a circuits1 rc2 of
                             (r, self3) \<Rightarrow> (r, self3, circuits1)))))"

definition getattr_bool :: "bool option \<Rightarrow> bool \<Rightarrow> bool" where
  "getattr_bool a d = (case a of None \<Rightarrow> d | Some b \<Rightarrow> b)"

definition run ::
  "env \<Rightarrow> backend \<Rightarrow> run_args \<Rightarrow> (py_exception + IBMJob) \<times> backend \<times> circuits_arg" where
  "run e self a =
     (case validate_job_tags (job_tags a) IBMBackendValueError of
        Inl ex \<Rightarrow> (Inl ex, self, circuits a)
      | Inr u \<Rightarrow>
          (let esp_enabled = getattr_bool (measure_esp_enabled (configuration self)) False;
               esp = (case use_measure_esp a of None \<Rightarrow> esp_enabled | Some b \<Rightarrow> b)
           in if esp \<and> \<not> esp_enabled then
                (Inl (IBMBackendValueError esp_unsupported_msg), self, circuits a)
              else run_checked e self a esp))"

text \<open>
  The two assignments \<open>run\<close> makes to the dictionary \<open>_get_run_config\<close> returned:
  \<open>parameter_binds\<close> when it is true, and on a simulator the simulation method
  when the dictionary has no \<open>method\<close>. The result is the run configuration that
  \<open>run\<close> hands to the composite job or to \<open>assemble\<close>.
\<close>

definition final_run_config ::
  "BackendConfiguration \<Rightarrow> run_args \<Rightarrow> (string \<times> pyval) list \<Rightarrow> (string \<times> pyval) list" where
  "final_run_config cfg a run_config_dict =
     (let sim_method = (if simulator cfg then simulation_method cfg else None);
          rc1 = (if truthy (parameter_binds a)
                 then AList.update ''parameter_binds'' (parameter_binds a) run_config_dict
                 else run_config_dict)
      in case sim_method of
           None \<Rightarrow> rc1
         | Some m \<Rightarrow>
             if m \<noteq> [] \<and> ''method'' \<notin> set (map fst rc1)
             then AList.update ''method'' (PStr m) rc1
             else rc1)"

section \<open>Sequences of calls and what is counted in the traces\<close>

fun is_job_submit :: "api_call \<Rightarrow> bool" where
  "is_job_submit (Job_submit n q jn jt ci l) = True"
| "is_job_submit _ = False"

fun is_id_warning :: "warning \<Rightarrow> bool" where
  "is_id_warning (DeprecationWarning m) = (m = id_deprecated_msg \<or> m = id_removed_msg)"
| "is_id_warning (UserWarning m) = False"

definition id_warning_count :: "backend \<Rightarrow> nat" where
  "id_warning_count self = length (filter is_id_warning (warnings self))"

definition id_potential :: "backend \<Rightarrow> nat" where
  "id_potential self = id_warning_count self + (if id_warning_issued self then 0 else 1)"

text \<open>
  What the accessors of the cache leave alone: everything but \<open>_properties\<close>,
  \<open>_defaults\<close> and the requests that are not submissions.
\<close>

definition cache_frame :: "backend \<Rightarrow> backend \<Rightarrow> bool" where
  "cache_frame self self' \<longleftrightarrow>
     configuration_attr self' = configuration_attr self \<and> options self' = options self \<and>
     is_IBMSimulator self' = is_IBMSimulator self \<and>
     id_warning_issued self' = id_warning_issued self \<and> warnings self' = warnings self \<and>
     filter is_job_submit (api_calls self') = filter is_job_submit (api_calls self)"

text \<open>What \<open>run\<close> leaves alone, and the count of warnings it cannot raise.\<close>

definition run_frame :: "backend \<Rightarrow> backend \<Rightarrow> bool" where
  "run_frame self self' \<longleftrightarrow>
     configuration_attr self' = configuration_attr self \<and> options self' = options self \<and>
     is_IBMSimulator self' = is_IBMSimulator self \<and>
     id_potential self' \<le> id_potential self"

text \<open>
  An entry of \<open>circuit.data\<close> and what the replacement makes of it: an \<open>id\<close>
  instruction becomes a \<open>Delay\<close> on the same qubits and clbits, any other entry stays.
\<close>

fun is_delay :: "instruction \<Rightarrow> bool" where
  "is_delay (Delay d) = True"
| "is_delay (Gate n) = False"

fun replaced_entry ::
  "instruction \<times> nat list \<times> nat list \<Rightarrow> instruction \<times> nat list \<times> nat list \<Rightarrow> bool" where
  "replaced_entry (instr, qargs, cargs) (instr', qargs', cargs') =
     (qargs' = qargs \<and> cargs' = cargs \<and>
      (if instr_name instr = ''id'' then is_delay instr' else instr' = instr))"

fun replaced_circuit :: "circuit \<Rightarrow> circuit \<Rightarrow> bool" where
  "replaced_circuit (QuantumCircuit d) (QuantumCircuit d') = list_all2 replaced_entry d d'"
| "replaced_circuit (Schedule s) (Schedule s') = (s = s')"
| "replaced_circuit _ _ = False"

text \<open>
  The properties give an \<open>sx\<close> gate length for the first qubit of every \<open>id\<close>
  instruction of a circuit.
\<close>

definition sx_known :: "env \<Rightarrow> BackendProperties \<Rightarrow> circuit \<Rightarrow> bool" where
  "sx_known e props c =
     (case c of
        QuantumCircuit d \<Rightarrow>
          list_all (\<lambda>(instr, qargs, cargs). instr_name instr = ''id'' \<longrightarrow>
                      (case qargs of
                         [] \<Rightarrow> False
                       | q0 # _ \<Rightarrow>
                           (case gate_length e props ''sx'' q0 of
                              Inl ex \<Rightarrow> False | Inr sx \<Rightarrow> True))) d
      | Schedule s \<Rightarrow> True)"

text \<open>
  The entry that takes the place of an entry of \<open>circuit.data\<close> under given
  properties and \<open>dt\<close>: for an \<open>id\<close> instruction, \<open>Delay\<close> of the \<open>sx\<close> gate length
  of its first qubit converted to \<open>dt\<close>, on the same qubits and clbits.
\<close>

fun replacement ::
  "env \<Rightarrow> BackendProperties \<Rightarrow> rat \<Rightarrow> instruction \<times> nat list \<times> nat list
     \<Rightarrow> instruction \<times> nat list \<times> nat list" where
  "replacement e props dt_in_s (instr, qargs, cargs) =
     (if instr_name instr = ''id'' then
        (case qargs of
           [] \<Rightarrow> (instr, qargs, cargs)
         | q0 # _ \<Rightarrow>
             (case gate_length e props ''sx'' q0 of
                Inl ex \<Rightarrow> (instr, qargs, cargs)
              | Inr sx_duration \<Rightarrow>
                  (Delay (duration_in_dt e sx_duration dt_in_s), qargs, cargs)))
      else (instr, qargs, cargs))"

fun replacement_circuit :: "env \<Rightarrow> BackendProperties \<Rightarrow> rat \<Rightarrow> circuit \<Rightarrow> circuit" where
  "replacement_circuit e props dt_in_s (QuantumCircuit d) =
     QuantumCircuit (map (replacement e props dt_in_s) d)"
| "replacement_circuit e props dt_in_s (Schedule s) = Schedule s"

text \<open>The warnings one pass of \<open>_get_run_config\<close> adds for the keywords it is given.\<close>

definition unrecognized_warnings :: "backend \<Rightarrow> (string \<times> pyval) list \<Rightarrow> warning list" where
  "unrecognized_warnings self kwargs =
     map (\<lambda>kv. UserWarning (unrecognized_msg (fst kv)))
       (filter (\<lambda>kv. snd kv \<noteq> PNone \<and> fst kv \<notin> set (map fst (options self)) \<and>
                     \<not> is_IBMSimulator self) kwargs)"

text \<open>Successive \<open>run\<close> calls on one instance, each with the server as it then is.\<close>

fun run_all :: "backend \<Rightarrow> (env \<times> run_args) list \<Rightarrow> backend" where
  "run_all self [] = self"
| "run_all self ((e, a) # calls) = run_all (fst (snd (run e self a))) calls"

text \<open>The public operations, and a sequence of them on one instance.\<close>

datatype operation =
    Run run_args
  | Properties bool "datetime option"
  | Status
  | Defaults bool
  | Job_limit
  | Remaining_jobs_count
  | Reservations "datetime option" "datetime option"
  | Active_jobs int

fun perform :: "env \<Rightarrow> backend \<Rightarrow> operation \<Rightarrow> backend" where
  "perform e self (Run a) = fst (snd (run e self a))"
| "perform e self (Properties refresh d) = snd (self_properties e self refresh d)"
| "perform e self Status = snd (status e self)"
| "perform e self (Defaults refresh) = snd (defaults e self refresh)"
| "perform e self Job_limit = snd (job_limit e self)"
| "perform e self Remaining_jobs_count = snd (remaining_jobs_count e self)"
| "perform e self (Reservations s t) = snd (reservations e self s t)"
| "perform e self (Active_jobs limit) = snd (active_jobs_of e self limit)"

fun perform_all :: "backend \<Rightarrow> (env \<times> operation) list \<Rightarrow> backend" where
  "perform_all self [] = self"
| "perform_all self ((e, op) # ops) = perform_all (perform e self op) ops"

section \<open>A concrete backend and server, for evaluation\<close>

definition cfg0 :: BackendConfiguration where
  "cfg0 = \<lparr>backend_name = ''ibmq_test'', simulator = False, simulation_method = None,
           measure_esp_enabled = None, max_experiments = Some 3,
           basis_gates = Some [''id'', ''sx'', ''cx''],
           supported_instructions = Some [''delay'', ''sx''], dt = Some 1\<rparr>"

definition default_options :: "(string \<times> pyval) list" where
  "default_options =
     [(''shots'', PInt 4000), (''memory'', PBool False), (''qubit_lo_freq'', PNone),
      (''meas_lo_freq'', PNone), (''schedule_los'', PNone), (''meas_level'', PInt 2),
      (''meas_return'', PStr ''avg''), (''memory_slots'', PNone),
      (''memory_slot_size'', PInt 100), (''rep_time'', PNone), (''rep_delay'', PNone),
      (''init_qubits'', PBool True), (''use_measure_esp'', PNone),
      (''live_data_enabled'', PNone)]"

definition args0 :: "circuits_arg \<Rightarrow> run_args" where
  "args0 cs = \<lparr>circuits = cs, job_name = None, job_tags = PNone, max_circuits_per_job = None,
              header = PNone, shots = PNone, memory = PNone, qubit_lo_freq = PNone,
              meas_lo_freq = PNone, schedule_los = PNone, meas_level = PNone,
              meas_return = PNone, memory_slots = PNone, memory_slot_size = PNone,
              rep_time = PNone, rep_delay = PNone, init_qubits = PNone,
              parameter_binds = PNone, use_measure_esp = None, live_data_enabled = None,
              run_config = []\<rparr>"

definition backend0 :: backend where
  "backend0 = \<lparr>configuration_attr = cfg0, properties_attr = None, defaults_attr = None,
               id_warning_issued = False, options = default_options,
               is_IBMSimulator = False, api_calls = [], warnings = [], published = []\<rparr>"

text \<open>
  A server that answers every request; its job-limit answer is the dictionary it is
  given, read by a constructor that takes the two fields when both are integers.
\<close>

fun jl_of_dict :: "pyval \<Rightarrow> string + BackendJobLimit" where
  "jl_of_dict (PDict kvs) =
     (case (map_of kvs ''maximum_jobs'', map_of kvs ''running_jobs'') of
        (Some (PInt m), Some (PInt r)) \<Rightarrow> Inr \<lparr>maximum_jobs = Some m, active_jobs = r\<rparr>
      | _ \<Rightarrow> Inl ''__init__() missing required positional arguments'')"
| "jl_of_dict _ = Inl ''argument after ** must be a mapping''"

definition env0 :: "pyval \<Rightarrow> env" where
  "env0 answer =
     \<lparr>job_submit = (\<lambda>n q jn jt ci l. Inr [(''job_id'', PStr ''j1'')]),
      backend_properties = (\<lambda>n d. Inr answer),
      backend_status = (\<lambda>n. Inr answer),
      backend_pulse_defaults = (\<lambda>n. Inr answer),
      backend_job_limit = (\<lambda>n. Inr answer),
      backend_reservations = (\<lambda>n s t. Inr answer),
      new_IBMCircuitJob = (\<lambda>q info. Inr (IBMCircuitJob q info)),
      new_BackendJobLimit = jl_of_dict,
      BackendStatus_from_dict = (\<lambda>d. Inr (BackendStatus d)),
      BackendProperties_from_dict = (\<lambda>d. Inr (BackendProperties d)),
      PulseDefaults_from_dict = (\<lambda>d. Inr (PulseDefaults d)),
      decode_backend_properties = (\<lambda>d. Inr d),
      decode_pulse_defaults = (\<lambda>d. Inr d),
      utc_to_local_all = (\<lambda>d. d),
      local_to_utc = (\<lambda>d. d),
      convert_reservation_data = (\<lambda>d n. Inr []),
      gate_length = (\<lambda>p g q. Inr 35),
      duration_in_dt = (\<lambda>d t. 160),
      assemble = (\<lambda>c rc. Inr (Qobj (PDict rc))),
      provider_jobs = (\<lambda>l. []),
      py_str = (\<lambda>v. ''?'')\<rparr>"



definition env_mistyped :: env where
  "env_mistyped = (env0 (PDict [(''backend_name'', PStr ''ibmq_test''), (''qubits'', PInt 5)]))
     \<lparr>BackendProperties_from_dict := (\<lambda>d. Inl (TypeError ''int object is not iterable'')),
      PulseDefaults_from_dict := (\<lambda>d. Inl (TypeError ''int object is not iterable''))\<rparr>"

text \<open>A circuit with an \<open>id\<close> instruction, and a backend whose cache is filled.\<close>

definition circ0 :: circuit where
  "circ0 = QuantumCircuit [(Gate ''sx'', [0], []), (Gate ''id'', [1], []), (Gate ''cx'', [0, 1], [])]"

definition backend1 :: backend where
  "backend1 = backend0\<lparr>properties_attr := Some (BackendProperties (PStr ''cached''))\<rparr>"

text \<open>
  A backend whose stored options hold \<open>use_measure_esp = True\<close> (as after
  \<open>set_options(use_measure_esp=True)\<close>), and a call with \<open>memory=True\<close> and the
  extra keywords \<open>foo=None\<close> and \<open>bar=1\<close>.
\<close>

definition backend2 :: backend where
  "backend2 = backend0\<lparr>options := AList.update ''use_measure_esp'' (PBool True) default_options\<rparr>"

definition args1 :: run_args where
  "args1 = (args0 (One (Schedule 7)))\<lparr>memory := PBool True,
             run_config := [(''foo'', PNone), (''bar'', PInt 1)]\<rparr>"

section \<open>Properties of the job limit\<close>

text \<open>
  C9. A job limit that \<open>job_limit\<close> returns never has \<open>maximum_jobs = -1\<close>: when the
  constructor read \<open>-1\<close> from the server's answer, \<open>maximum_jobs\<close> is \<open>None\<close> in the
  result, and \<open>remaining_jobs_count\<close> then returns \<open>None\<close>; any count it does return
  is \<open>maximum_jobs - active_jobs\<close> for a maximum other than \<open>-1\<close>.
\<close>

theorem job_limit_no_minus_one:
  "(\<forall>jl. fst (job_limit e self) = Inr jl \<longrightarrow> maximum_jobs jl \<noteq> Some (- 1)) \<and>
   (\<forall>raw jl0. backend_job_limit e (name self) = Inr raw \<and>
        new_BackendJobLimit e raw = Inr jl0 \<and> maximum_jobs jl0 = Some (- 1) \<longrightarrow>
        fst (job_limit e self) = Inr (jl0\<lparr>maximum_jobs := None\<rparr>) \<and>
        fst (remaining_jobs_count e self) = Inr None) \<and>
   (\<forall>n. fst (remaining_jobs_count e self) = Inr (Some n) \<longrightarrow>
        (\<exists>raw jl0 m. backend_job_limit e (name self) = Inr raw \<and>
           new_BackendJobLimit e raw = Inr jl0 \<and> maximum_jobs jl0 = Some m \<and>
           m \<noteq> - 1 \<and> n = m - active_jobs jl0))"
proof (intro conjI allI impI)
  fix jl
  assume "fst (job_limit e self) = Inr jl"
  then show "maximum_jobs jl \<noteq> Some (- 1)"
    by (auto simp: job_limit_def Let_def split: sum.splits if_splits)
next
  fix raw jl0
  assume h: "backend_job_limit e (name self) = Inr raw \<and>
      new_BackendJobLimit e raw = Inr jl0 \<and> maximum_jobs jl0 = Some (- 1)"
  then show "fst (job_limit e self) = Inr (jl0\<lparr>maximum_jobs := None\<rparr>)"
    by (simp add: job_limit_def Let_def)
  from h show "fst (remaining_jobs_count e self) = Inr None"
    by (simp add: remaining_jobs_count_def job_limit_def Let_def)
next
  fix n
  assume "fst (remaining_jobs_count e self) = Inr (Some n)"
  then show "\<exists>raw jl0 m. backend_job_limit e (name self) = Inr raw \<and>
           new_BackendJobLimit e raw = Inr jl0 \<and> maximum_jobs jl0 = Some m \<and>
           m \<noteq> - 1 \<and> n = m - active_jobs jl0"
    by (auto simp: remaining_jobs_count_def job_limit_def Let_def
             split: sum.splits if_splits option.splits)
qed

theorem job_limit_no_minus_one_witness:
  "fst (job_limit (env0 (PDict [(''maximum_jobs'', PInt (- 1)), (''running_jobs'', PInt 2)]))
          backend0) = Inr \<lparr>maximum_jobs = None, active_jobs = 2\<rparr> \<and>
   fst (remaining_jobs_count
          (env0 (PDict [(''maximum_jobs'', PInt (- 1)), (''running_jobs'', PInt 2)]))
          backend0) = Inr None \<and>
   fst (remaining_jobs_count
          (env0 (PDict [(''maximum_jobs'', PInt 5), (''running_jobs'', PInt 2)]))
          backend0) = Inr (Some 3)"
  using job_limit_no_minus_one
    [of "env0 (PDict [(''maximum_jobs'', PInt (- 1)), (''running_jobs'', PInt 2)])" backend0]
  by (simp add: job_limit_def remaining_jobs_count_def env0_def Let_def)

section \<open>Chunks of a list of circuits\<close>





section \<open>What the replacement of \<open>id\<close> instructions changes\<close>

lemma cache_frame_refl: "cache_frame self self"
  by (simp add: cache_frame_def)

lemma cache_frame_trans: "cache_frame a b \<Longrightarrow> cache_frame b c \<Longrightarrow> cache_frame a c"
  by (simp add: cache_frame_def)

lemma properties_cache_frame: "cache_frame self (snd (properties e self refresh d))"
  by (simp add: properties_def cache_frame_def call_api_def Let_def split: sum.splits)

lemma self_properties_cache_frame: "cache_frame self (snd (self_properties e self refresh d))"
  by (simp add: self_properties_def properties_cache_frame cache_frame_refl)

lemma replace_ids_cache_frame:
  "cache_frame self (fst (snd (replace_ids e self dt_in_s d)))"
proof (induction d arbitrary: self)
  case Nil
  then show ?case by (simp add: cache_frame_refl)
next
  case (Cons x d)
  obtain instr qargs cargs where x: "x = (instr, qargs, cargs)" by (cases x)
  show ?case
  proof (cases "instr_name instr = ''id''")
    case False
    then show ?thesis using Cons[of self] x by (auto split: prod.splits)
  next
    case True
    obtain r self1 where p: "self_properties e self False None = (r, self1)"
      by (cases "self_properties e self False None")
    have f1: "cache_frame self self1" using self_properties_cache_frame[of self e False None] p by simp
    show ?thesis using True x p f1 Cons[of self1]
      by (auto simp: split: sum.splits option.splits list.splits prod.splits
               intro: cache_frame_trans)
  qed
qed

lemma replace_in_circuits_cache_frame:
  "cache_frame self (fst (snd (replace_in_circuits e self dt_in_s cs)))"
proof (induction cs arbitrary: self)
  case Nil
  then show ?case by (simp add: cache_frame_refl)
next
  case (Cons c cs)
  show ?case
  proof (cases c)
    case (Schedule s)
    then show ?thesis using Cons[of self] by (auto split: prod.splits)
  next
    case (QuantumCircuit d)
    obtain r self1 d' where p: "replace_ids e self dt_in_s d = (r, self1, d')"
      by (cases "replace_ids e self dt_in_s d")
    have f1: "cache_frame self self1" using replace_ids_cache_frame[of self e dt_in_s d] p by simp
    show ?thesis using QuantumCircuit p f1 Cons[of self1]
      by (auto split: sum.splits prod.splits intro: cache_frame_trans)
  qed
qed



lemma replace_ids_length:
  "replace_ids e self dt_in_s d = (r, self', d') \<Longrightarrow> length d' = length d"
proof (induction d arbitrary: self r self' d')
  case Nil
  then show ?case by simp
next
  case (Cons x d)
  obtain instr qargs cargs where x: "x = (instr, qargs, cargs)" by (cases x)
  show ?case using x Cons.prems
    by (auto split: sum.splits option.splits list.splits prod.splits if_splits
             dest: Cons.IH)
qed

lemma replace_ids_Inr:
  "replace_ids e self dt_in_s d = (Inr u, self', d') \<Longrightarrow>
     list_all2 replaced_entry d d' \<and>
     \<not> list_ex (\<lambda>(instr, qargs, cargs). instr_name instr = ''id'') d'"
proof (induction d arbitrary: self self' d')
  case Nil
  then show ?case by simp
next
  case (Cons x d)
  obtain instr qargs cargs where x: "x = (instr, qargs, cargs)" by (cases x)
  show ?case
  proof (cases "instr_name instr = ''id''")
    case False
    obtain r s2 rest' where rec: "replace_ids e self dt_in_s d = (r, s2, rest')"
      by (cases "replace_ids e self dt_in_s d")
    from Cons.prems x False rec have "r = Inr u" "s2 = self'" "d' = (instr, qargs, cargs) # rest'"
      by auto
    then show ?thesis using Cons.IH[of self self' rest'] rec x False by simp
  next
    case True
    from Cons.prems x True obtain props self1 q0 qs sx rest' where
      a: "self_properties e self False None = (Inr (Some props), self1)" and
      b: "qargs = q0 # qs" and
      c: "gate_length e props ''sx'' q0 = Inr sx" and
      d: "replace_ids e self1 dt_in_s d = (Inr u, self', rest')" and
      e: "d' = (Delay (duration_in_dt e sx dt_in_s), qargs, cargs) # rest'"
      by (auto split: sum.splits option.splits list.splits prod.splits)
    show ?thesis using Cons.IH[OF d] e x True by simp
  qed
qed

lemma replace_in_circuits_length:
  "replace_in_circuits e self dt_in_s cs = (r, self', cs') \<Longrightarrow> length cs' = length cs"
proof (induction cs arbitrary: self r self' cs')
  case Nil
  then show ?case by simp
next
  case (Cons c cs)
  show ?case using Cons.prems
    by (cases c) (auto split: sum.splits prod.splits dest: Cons.IH)
qed

lemma replace_in_circuits_Inr:
  "replace_in_circuits e self dt_in_s cs = (Inr u, self', cs') \<Longrightarrow>
     list_all2 replaced_circuit cs cs' \<and> list_all (\<lambda>c. \<not> has_id c) cs'"
proof (induction cs arbitrary: self self' cs')
  case Nil
  then show ?case by simp
next
  case (Cons c cs)
  show ?case
  proof (cases c)
    case (Schedule s)
    obtain r s2 rest' where rec: "replace_in_circuits e self dt_in_s cs = (r, s2, rest')"
      by (cases "replace_in_circuits e self dt_in_s cs")
    from Cons.prems Schedule rec have "r = Inr u" "s2 = self'" "cs' = Schedule s # rest'"
      by auto
    then show ?thesis using Cons.IH[of self self' rest'] rec Schedule by (simp add: has_id_def)
  next
    case (QuantumCircuit d)
    from Cons.prems QuantumCircuit obtain u1 self1 d' rest' where
      a: "replace_ids e self dt_in_s d = (Inr u1, self1, d')" and
      b: "replace_in_circuits e self1 dt_in_s cs = (Inr u, self', rest')" and
      c: "cs' = QuantumCircuit d' # rest'"
      by (auto split: sum.splits prod.splits)
    show ?thesis using replace_ids_Inr[OF a] Cons.IH[OF b] c QuantumCircuit
      by (simp add: has_id_def)
  qed
qed

lemma replaced_entry_same:
  "\<not> (case x of (instr, qargs, cargs) \<Rightarrow> instr_name instr = ''id'') \<Longrightarrow> replaced_entry x x"
  by (cases x) auto

lemma replaced_circuit_same: "\<not> has_id c \<Longrightarrow> replaced_circuit c c"
  by (cases c) (auto simp: has_id_def list_ex_iff list_all2_same intro: replaced_entry_same)

lemma as_list_updated_arg:
  "length cs' = length (as_list c) \<Longrightarrow> as_list (updated_arg c cs') = cs'"
  by (cases c; cases cs') (auto simp: as_list_def updated_arg_def)

lemma deprecate_Inr:
  assumes "''delay'' \<in> set (getattr_list (supported_instructions (configuration self)))"
    and "deprecate_id_instruction e self c = (Inr u, self', c')"
  shows "list_all2 replaced_circuit (as_list c) (as_list c') \<and>
         list_all (\<lambda>x. \<not> has_id x) (as_list c')"
proof (cases "list_ex has_id (as_list c)")
  case False
  then have "c' = c" using assms by (simp add: deprecate_id_instruction_def Let_def)
  moreover have "list_all (\<lambda>x. \<not> has_id x) (as_list c)"
    using False by (simp add: list_ex_iff list_all_iff)
  ultimately show ?thesis
    by (auto simp: list_all2_same list_all_iff intro: replaced_circuit_same)
next
  case True
  from assms True obtain s1 dt_in_s cs' where
    a: "replace_in_circuits e s1 dt_in_s (as_list c) = (Inr u, self', cs')" and
    b: "c' = updated_arg c cs'"
    by (auto simp: deprecate_id_instruction_def Let_def split: option.splits prod.splits)
  have "length cs' = length (as_list c)"
    using replace_in_circuits_length[OF a] by simp
  then have "as_list c' = cs'" using b by (simp add: as_list_updated_arg)
  then show ?thesis using replace_in_circuits_Inr[OF a] by simp
qed


section \<open>The consolidated run configuration\<close>

lemma unrecognized_warnings_warn:
  "unrecognized_warnings (warn w self) kwargs = unrecognized_warnings self kwargs"
  by (simp add: unrecognized_warnings_def warn_def)

lemma run_config_loop_state:
  "snd (run_config_loop self rc kwargs) =
     self\<lparr>warnings := warnings self @ unrecognized_warnings self kwargs\<rparr>"
proof (induction kwargs arbitrary: self rc)
  case Nil
  then show ?case by (simp add: unrecognized_warnings_def)
next
  case (Cons kv kwargs)
  obtain key val where kv: "kv = (key, val)" by (cases kv)
  show ?case
  proof (cases "val \<noteq> PNone \<and> key \<notin> set (map fst (options self)) \<and> \<not> is_IBMSimulator self")
    case True
    then show ?thesis using kv Cons[of "warn (UserWarning (unrecognized_msg key)) self"]
      by (simp add: unrecognized_warnings_warn) (simp add: unrecognized_warnings_def warn_def)
  next
    case False
    then show ?thesis using kv Cons[of self]
      by (auto simp: unrecognized_warnings_def)
  qed
qed

lemma run_config_loop_dict:
  "map_of (fst (run_config_loop self rc kwargs)) =
     map_of rc ++ map_of (rev (filter (\<lambda>kv. snd kv \<noteq> PNone) kwargs))"
proof (induction kwargs arbitrary: self rc)
  case Nil
  then show ?case by simp
next
  case (Cons kv kwargs)
  obtain key val where kv: "kv = (key, val)" by (cases kv)
  show ?case using kv Cons
    by (auto simp: update_conv' map_add_def fun_eq_iff split: option.splits)
qed

lemma get_run_config_state:
  "snd (get_run_config self kwargs) =
     self\<lparr>warnings := warnings self @ unrecognized_warnings self kwargs\<rparr>"
  by (simp add: get_run_config_def run_config_loop_state)

lemma get_run_config_dict:
  "map_of (fst (get_run_config self kwargs)) =
     map_of (options self) ++ map_of (rev (filter (\<lambda>kv. snd kv \<noteq> PNone) kwargs))"
  by (simp add: get_run_config_def run_config_loop_dict)

lemma unrecognized_msg_inj: "unrecognized_msg k = unrecognized_msg k' \<longleftrightarrow> k = k'"
  by (simp add: unrecognized_msg_def)

lemma count_unrecognized:
  "count_list (unrecognized_warnings self kwargs) (UserWarning (unrecognized_msg k)) =
     (if k \<notin> set (map fst (options self)) \<and> \<not> is_IBMSimulator self
      then length (filter (\<lambda>kv. fst kv = k \<and> snd kv \<noteq> PNone) kwargs) else 0)"
proof (cases "k \<notin> set (map fst (options self)) \<and> \<not> is_IBMSimulator self")
  case True
  then show ?thesis
    by (induction kwargs) (auto simp: unrecognized_warnings_def unrecognized_msg_inj)
next
  case False
  have "UserWarning (unrecognized_msg k) \<notin> set (unrecognized_warnings self kwargs)"
    using False by (force simp: unrecognized_warnings_def unrecognized_msg_inj image_iff)
  then show ?thesis using False by (auto simp: count_list_0_iff)
qed

lemma distinct_key_filter:
  "distinct (map fst kwargs) \<Longrightarrow> (k, v) \<in> set kwargs \<Longrightarrow>
     filter (\<lambda>kv. fst kv = k) kwargs = [(k, v)]"
proof (induction kwargs)
  case Nil
  then show ?case by simp
next
  case (Cons a kwargs)
  show ?case
  proof (cases "fst a = k")
    case True
    then have "a = (k, v)" using Cons.prems by (cases a) force
    moreover have "k \<notin> fst ` set kwargs" using Cons.prems(1) True by auto
    then have "\<forall>x\<in>set kwargs. fst x \<noteq> k" by (auto simp: image_iff)
    then have "filter (\<lambda>kv. fst kv = k) kwargs = []"
      by (simp add: filter_empty_conv)
    ultimately show ?thesis by simp
  next
    case False
    then show ?thesis using Cons by auto
  qed
qed

lemma filter_key_nonnone:
  "filter (\<lambda>kv. fst kv = k \<and> snd kv \<noteq> PNone) kwargs =
     filter (\<lambda>kv. snd kv \<noteq> PNone) (filter (\<lambda>kv. fst kv = k) kwargs)"
  by (induction kwargs) auto

lemma run_config_loop_filter:
  "run_config_loop self rc (filter (\<lambda>kv. snd kv \<noteq> PNone) kwargs) = run_config_loop self rc kwargs"
proof (induction kwargs arbitrary: self rc)
  case Nil
  then show ?case by simp
next
  case (Cons kv kwargs)
  obtain key val where kv: "kv = (key, val)" by (cases kv)
  show ?case using kv Cons by simp
qed

lemma get_run_config_filter:
  "get_run_config self (filter (\<lambda>kv. snd kv \<noteq> PNone) kwargs) = get_run_config self kwargs"
  by (simp add: get_run_config_def run_config_loop_filter)

lemma get_run_config_none:
  assumes "distinct (map fst kwargs)" and "(k, PNone) \<in> set kwargs"
  shows "map_of (fst (get_run_config self kwargs)) k = map_of (options self) k \<and>
         count_list (warnings (snd (get_run_config self kwargs))) (UserWarning (unrecognized_msg k)) =
           count_list (warnings self) (UserWarning (unrecognized_msg k))"
proof
  have f: "filter (\<lambda>kv. fst kv = k) kwargs = [(k, PNone)]"
    using assms by (simp add: distinct_key_filter)
  have "k \<notin> fst ` set (filter (\<lambda>kv. snd kv \<noteq> PNone) kwargs)"
  proof
    assume "k \<in> fst ` set (filter (\<lambda>kv. snd kv \<noteq> PNone) kwargs)"
    then obtain w where "(k, w) \<in> set kwargs" "w \<noteq> PNone" by auto
    then have "(k, w) \<in> set (filter (\<lambda>kv. fst kv = k) kwargs)" by simp
    then show False using f \<open>w \<noteq> PNone\<close> by simp
  qed
  then have "map_of (rev (filter (\<lambda>kv. snd kv \<noteq> PNone) kwargs)) k = None"
    by (simp add: map_of_eq_None_iff)
  then show "map_of (fst (get_run_config self kwargs)) k = map_of (options self) k"
    by (simp add: get_run_config_dict map_add_def)
  have "filter (\<lambda>kv. fst kv = k \<and> snd kv \<noteq> PNone) kwargs = []"
    using f by (simp add: filter_key_nonnone)
  then show "count_list (warnings (snd (get_run_config self kwargs))) (UserWarning (unrecognized_msg k)) =
        count_list (warnings self) (UserWarning (unrecognized_msg k))"
    by (simp add: get_run_config_state count_unrecognized)
qed

lemma get_run_config_keeps:
  assumes "map_of (options self) k = Some v" and "v \<noteq> PNone"
  shows "map_of (fst (get_run_config self kwargs)) k \<noteq> Some PNone \<and>
         map_of (fst (get_run_config self kwargs)) k \<noteq> None"
proof
  show "map_of (fst (get_run_config self kwargs)) k \<noteq> Some PNone"
  proof
    assume a: "map_of (fst (get_run_config self kwargs)) k = Some PNone"
    then have "map_of (rev (filter (\<lambda>kv. snd kv \<noteq> PNone) kwargs)) k = Some PNone"
      using assms by (auto simp: get_run_config_dict map_add_def split: option.splits)
    then have "(k, PNone) \<in> set (rev (filter (\<lambda>kv. snd kv \<noteq> PNone) kwargs))"
      by (rule map_of_SomeD)
    then show False by simp
  qed
  show "map_of (fst (get_run_config self kwargs)) k \<noteq> None"
    using assms by (simp add: get_run_config_dict map_add_def split: option.splits)
qed

lemma get_run_config_given:
  assumes "distinct (map fst kwargs)" and "(k, v) \<in> set kwargs" and "v \<noteq> PNone"
  shows "map_of (fst (get_run_config self kwargs)) k = Some v"
proof -
  have d: "distinct (map fst (rev (filter (\<lambda>kv. snd kv \<noteq> PNone) kwargs)))"
    using assms(1) by (simp add: rev_map[symmetric] distinct_map_filter)
  have "(k, v) \<in> set (rev (filter (\<lambda>kv. snd kv \<noteq> PNone) kwargs))"
    using assms(2,3) by simp
  then have "map_of (rev (filter (\<lambda>kv. snd kv \<noteq> PNone) kwargs)) k = Some v"
    using d by (rule map_of_is_SomeI[rotated])
  then show ?thesis by (simp add: get_run_config_dict)
qed

text \<open>
  An option that is not among the defaults and has a value other than \<open>None\<close>
  reaches the run configuration, with one warning unless the instance is a simulator.
\<close>

lemma unrecognized_option_passed:
  assumes "distinct (map fst kwargs)" and "(k, v) \<in> set kwargs" and "v \<noteq> PNone"
    and "k \<notin> set (map fst (options self))"
  shows "map_of (fst (get_run_config self kwargs)) k = Some v \<and>
         count_list (warnings (snd (get_run_config self kwargs))) (UserWarning (unrecognized_msg k)) =
           count_list (warnings self) (UserWarning (unrecognized_msg k)) +
           (if is_IBMSimulator self then 0 else 1)"
proof -
  have d: "distinct (map fst (rev (filter (\<lambda>kv. snd kv \<noteq> PNone) kwargs)))"
    using assms(1) by (simp add: rev_map[symmetric] distinct_map_filter)
  have "(k, v) \<in> set (rev (filter (\<lambda>kv. snd kv \<noteq> PNone) kwargs))"
    using assms(2,3) by simp
  then have "map_of (rev (filter (\<lambda>kv. snd kv \<noteq> PNone) kwargs)) k = Some v"
    using d by (rule map_of_is_SomeI[rotated])
  then have 1: "map_of (fst (get_run_config self kwargs)) k = Some v"
    by (simp add: get_run_config_dict)
  have "filter (\<lambda>kv. fst kv = k \<and> snd kv \<noteq> PNone) kwargs = [(k, v)]"
    using assms(1,2,3) by (simp add: filter_key_nonnone distinct_key_filter)
  then have 2: "count_list (unrecognized_warnings self kwargs) (UserWarning (unrecognized_msg k)) =
       (if is_IBMSimulator self then 0 else 1)"
    using assms(4) by (simp add: count_unrecognized)
  show ?thesis using 1 2 by (simp add: get_run_config_state)
qed

section \<open>What a call of \<open>run\<close> leaves unchanged\<close>

lemma run_frame_refl: "run_frame self self"
  by (simp add: run_frame_def)

lemma run_frame_trans: "run_frame a b \<Longrightarrow> run_frame b c \<Longrightarrow> run_frame a c"
  by (auto simp: run_frame_def)

lemma cache_frame_run_frame: "cache_frame a b \<Longrightarrow> run_frame a b"
  by (simp add: cache_frame_def run_frame_def id_potential_def id_warning_count_def)

lemma warn_id_run_frame:
  "\<not> id_warning_issued self \<Longrightarrow> is_id_warning w \<Longrightarrow>
     run_frame self ((warn w self)\<lparr>id_warning_issued := True\<rparr>)"
  by (simp add: run_frame_def warn_def id_potential_def id_warning_count_def)

lemma deprecate_frame:
  assumes "deprecate_id_instruction e self c = (r, self', c')"
  shows "run_frame self self' \<and>
         filter is_job_submit (api_calls self') = filter is_job_submit (api_calls self)"
proof -
  let ?w = "DeprecationWarning
              (if ''id'' \<in> set (getattr_list (basis_gates (configuration self))) \<and>
                  ''delay'' \<in> set (getattr_list (supported_instructions (configuration self)))
               then id_deprecated_msg else id_removed_msg)"
  let ?s1 = "if \<not> id_warning_issued self
             then (warn ?w self)\<lparr>id_warning_issued := True\<rparr> else self"
  have w: "is_id_warning ?w" by simp
  have f1: "run_frame self ?s1"
    using warn_id_run_frame[OF _ w] by (simp add: run_frame_refl)
  have a1: "api_calls ?s1 = api_calls self" by (simp add: warn_def)
  have step: "\<And>d. run_frame self (fst (snd (replace_in_circuits e ?s1 d (as_list c)))) \<and>
      filter is_job_submit (api_calls (fst (snd (replace_in_circuits e ?s1 d (as_list c))))) =
      filter is_job_submit (api_calls self)"
  proof -
    fix d
    have cf: "cache_frame ?s1 (fst (snd (replace_in_circuits e ?s1 d (as_list c))))"
      by (rule replace_in_circuits_cache_frame)
    show "run_frame self (fst (snd (replace_in_circuits e ?s1 d (as_list c)))) \<and>
      filter is_job_submit (api_calls (fst (snd (replace_in_circuits e ?s1 d (as_list c))))) =
      filter is_job_submit (api_calls self)"
      using run_frame_trans[OF f1 cache_frame_run_frame[OF cf]] cf a1
      by (simp add: cache_frame_def)
  qed
  have "self' = self \<or> self' = ?s1 \<or>
        (\<exists>d. self' = fst (snd (replace_in_circuits e ?s1 d (as_list c))))"
  proof (cases "''delay'' \<in> set (getattr_list (supported_instructions (configuration self)))
                \<and> list_ex has_id (as_list c)")
    case False
    then have "deprecate_id_instruction e self c = (Inr (), self, c)"
      by (auto simp: deprecate_id_instruction_def Let_def)
    then show ?thesis using assms by simp
  next
    case True
    show ?thesis
    proof (cases "dt (configuration self)")
      case None
      then show ?thesis using assms True
        by (auto simp: deprecate_id_instruction_def Let_def)
    next
      case (Some d)
      obtain r2 s2 cs2 where rc: "replace_in_circuits e ?s1 d (as_list c) = (r2, s2, cs2)"
        by (cases "replace_in_circuits e ?s1 d (as_list c)")
      have "self' = s2" using True Some rc assms
        by (auto simp: deprecate_id_instruction_def Let_def cong: if_cong)
      then have "self' = fst (snd (replace_in_circuits e ?s1 d (as_list c)))"
        using rc by simp
      then show ?thesis by blast
    qed
  qed
  then show ?thesis using f1 a1 step by (auto simp: run_frame_refl)
qed

lemma get_run_config_frame:
  "run_frame self (snd (get_run_config self kwargs)) \<and>
   api_calls (snd (get_run_config self kwargs)) = api_calls self"
  by (simp add: get_run_config_state run_frame_def id_potential_def id_warning_count_def
        unrecognized_warnings_def filter_map o_def)

lemma submit_job_frame:
  "run_frame self (snd (submit_job e self q jn jt ci l)) \<and>
   filter is_job_submit (api_calls (snd (submit_job e self q jn jt ci l))) =
     filter is_job_submit (api_calls self) @ [Job_submit (name self) (to_dict q) jn jt ci l]"
  by (simp add: submit_job_def Let_def call_api_def run_frame_def id_potential_def
        id_warning_count_def name_def split: sum.splits option.splits)

lemma submit_circuits_frame:
  "run_frame self (snd (submit_circuits e self a c rc))"
  using submit_job_frame
  by (auto simp: submit_circuits_def Let_def run_frame_refl split: option.splits sum.splits)

lemma run_checked_frame: "run_frame self (fst (snd (run_checked e self a esp)))"
proof -
  obtain r1 self1 c1 where d: "(if \<not> simulator (configuration self)
               then deprecate_id_instruction e self (circuits a)
               else (Inr (), self, circuits a)) = (r1, self1, c1)"
    by (cases "(if \<not> simulator (configuration self)
               then deprecate_id_instruction e self (circuits a)
               else (Inr (), self, circuits a))") auto
  have f1: "run_frame self self1"
    using d deprecate_frame[of e self "circuits a" r1 self1 c1]
    by (auto simp: run_frame_refl split: if_splits)
  have f2: "\<And>kw. run_frame self (snd (get_run_config self1 kw))"
    using run_frame_trans[OF f1] get_run_config_frame by blast
  have f3: "\<And>kw c rc. run_frame self (snd (submit_circuits e (snd (get_run_config self1 kw)) a c rc))"
    using run_frame_trans[OF f2] submit_circuits_frame by blast
  show ?thesis
    using d f1 f3
    by (auto simp: run_checked_def Let_def split: sum.splits prod.splits option.splits)
       (metis snd_conv)+
qed

lemma run_run_frame: "run_frame self (fst (snd (run e self a)))"
  by (simp add: run_def Let_def run_checked_frame run_frame_refl split: sum.splits)

lemma run_all_frame: "run_frame self (run_all self calls)"
proof (induction calls arbitrary: self)
  case Nil
  then show ?case by (simp add: run_frame_refl)
next
  case (Cons c calls)
  obtain e a where c: "c = (e, a)" by (cases c)
  show ?case using c Cons[of "fst (snd (run e self a))"] run_run_frame[of self e a]
    by (auto intro: run_frame_trans)
qed

lemma perform_configuration:
  "configuration_attr (perform e self op) = configuration_attr self"
proof (cases op)
  case (Run a)
  then show ?thesis using run_run_frame[of self e a] by (simp add: run_frame_def)
next
  case (Properties r d)
  then show ?thesis using self_properties_cache_frame[of self e r d] by (simp add: cache_frame_def)
next
  case Status
  then show ?thesis by (simp add: status_def Let_def call_api_def split: sum.splits)
next
  case (Defaults r)
  then show ?thesis by (simp add: defaults_def Let_def call_api_def split: sum.splits)
next
  case Job_limit
  then show ?thesis by (simp add: job_limit_def Let_def call_api_def split: sum.splits)
next
  case Remaining_jobs_count
  then show ?thesis
    by (simp add: remaining_jobs_count_def job_limit_def Let_def call_api_def
             split: sum.splits option.splits)
next
  case (Reservations s t)
  then show ?thesis by (simp add: reservations_def Let_def call_api_def split: sum.splits)
next
  case (Active_jobs l)
  then show ?thesis by (simp add: active_jobs_of_def)
qed

section \<open>The name of a backend\<close>

text \<open>
  C8. Whatever sequence of public operations (\<open>run\<close>, \<open>properties\<close>, \<open>status\<close>,
  \<open>defaults\<close>, \<open>job_limit\<close>, \<open>remaining_jobs_count\<close>, \<open>reservations\<close>,
  \<open>active_jobs\<close>) is performed on a backend, its \<open>name()\<close> and the stored
  configuration the name is read from stay what they were.
\<close>

theorem name_unchanged:
  "name (perform_all self ops) = name self \<and>
   configuration (perform_all self ops) = configuration self"
proof (induction ops arbitrary: self)
  case Nil
  then show ?case by simp
next
  case (Cons x ops)
  obtain e op where x: "x = (e, op)" by (cases x)
  show ?case using Cons[of "perform e self op"] x perform_configuration[of e self op]
    by (simp add: name_def configuration_def)
qed

section \<open>The outcomes of a submission\<close>



section \<open>Validation before any request\<close>



section \<open>The cache of properties, and malformed responses\<close>

text \<open>
  C6. A call of \<open>properties\<close> with a \<open>datetime\<close> leaves \<open>_properties\<close> as it was,
  and returns what the server sent for that date. A call changes \<open>_properties\<close>
  only without a \<open>datetime\<close> and with \<open>refresh=True\<close> or an empty cache. A call
  without \<open>datetime\<close> and \<open>refresh\<close> on a filled cache returns the cached value
  and leaves the whole backend, the trace of requests included, as it was.
\<close>

theorem properties_cache:
  "(datetime \<noteq> None \<longrightarrow>
      properties_attr (snd (properties e self refresh datetime)) = properties_attr self) \<and>
   (datetime = Some d \<and>
    backend_properties e (name self) (Some (local_to_utc e d)) = Inr raw \<and> truthy raw \<and>
    decode_backend_properties e raw = Inr decoded \<and>
    BackendProperties_from_dict e (utc_to_local_all e decoded) = Inr props \<longrightarrow>
      fst (properties e self refresh datetime) = Inr (Some props)) \<and>
   (properties_attr (snd (properties e self refresh datetime)) \<noteq> properties_attr self \<longrightarrow>
      datetime = None \<and> (refresh \<or> properties_attr self = None)) \<and>
   (datetime = None \<and> \<not> refresh \<and> properties_attr self \<noteq> None \<longrightarrow>
      properties e self refresh datetime = (Inr (properties_attr self), self) \<and>
      api_calls (snd (properties e self refresh datetime)) = api_calls self)"
  by (auto simp: properties_def Let_def call_api_def split: sum.splits)

theorem properties_cache_witness:
  "properties (env0 (PStr ''old'')) backend1 False (Some (Datetime 5)) =
     (Inr (Some (BackendProperties (PStr ''old''))),
      backend1\<lparr>api_calls := [Backend_properties ''ibmq_test'' (Some (Datetime 5))]\<rparr>) \<and>
   properties (env0 (PStr ''new'')) backend1 True None =
     (Inr (Some (BackendProperties (PStr ''new''))),
      backend1\<lparr>properties_attr := Some (BackendProperties (PStr ''new'')),
               api_calls := [Backend_properties ''ibmq_test'' None]\<rparr>) \<and>
   properties (env0 (PStr ''new'')) backend1 False None =
     (Inr (Some (BackendProperties (PStr ''cached''))), backend1)"
  using properties_cache
      [where e = "env0 (PStr ''old'')" and self = backend1 and refresh = False
         and datetime = "Some (Datetime 5)" and d = "Datetime 5" and raw = "PStr ''old''"
         and decoded = "PStr ''old''" and props = "BackendProperties (PStr ''old'')"]
    properties_cache
      [where e = "env0 (PStr ''new'')" and self = backend1 and refresh = True
         and datetime = None]
    properties_cache
      [where e = "env0 (PStr ''new'')" and self = backend1 and refresh = False
         and datetime = None]
  by (simp add: properties_def backend1_def backend0_def cfg0_def name_def call_api_def
        env0_def Let_def)

text \<open>
  C7 fails for \<open>properties\<close>: when the decoder rejects a mistyped response with
  \<open>TypeError\<close>, the caller gets that \<open>TypeError\<close>, not \<open>IBMBackendApiProtocolError\<close>;
  the same holds for \<open>defaults\<close>.
\<close>

theorem properties_raises_no_protocol_error:
  "BackendProperties_from_dict env_mistyped
     (PDict [(''backend_name'', PStr ''ibmq_test''), (''qubits'', PInt 5)]) =
     Inl (TypeError ''int object is not iterable'') \<and>
   fst (properties env_mistyped backend0 False None) =
     Inl (TypeError ''int object is not iterable'') \<and>
   fst (defaults env_mistyped backend0 False) =
     Inl (TypeError ''int object is not iterable'')"
  by (simp add: properties_def defaults_def env_mistyped_def env0_def backend0_def cfg0_def
        name_def call_api_def Let_def)

text \<open>
  C7, amended. \<open>status\<close> and \<open>job_limit\<close> raise \<open>IBMBackendApiProtocolError\<close> when
  building the result from the server's response raises \<open>TypeError\<close>, and otherwise
  return the object built (for \<open>job_limit\<close>, with a maximum of \<open>-1\<close> replaced by
  \<open>None\<close>): never a partial result. \<open>properties\<close>, \<open>defaults\<close> and \<open>reservations\<close>
  do not translate errors: an exception raised while the response is decoded reaches
  the caller unchanged, and a result is returned only when the decoding succeeded.
\<close>

theorem accessors_on_malformed_responses:
  "(backend_status e (name self) = Inr raw \<longrightarrow>
      fst (status e self) =
        (case BackendStatus_from_dict e raw of
           Inl msg \<Rightarrow> Inl (IBMBackendApiProtocolError
             (''Unexpected return value received from the server when '' @
              ''getting backend status: '' @ msg))
         | Inr st \<Rightarrow> Inr st)) \<and>
   (backend_job_limit e (name self) = Inr raw \<longrightarrow>
      fst (job_limit e self) =
        (case new_BackendJobLimit e raw of
           Inl msg \<Rightarrow> Inl (IBMBackendApiProtocolError
             (''Unexpected return value received from the server when '' @
              ''querying job limit data for the backend: '' @ msg @ ''.''))
         | Inr jl \<Rightarrow> Inr (if maximum_jobs jl = Some (- 1) then jl\<lparr>maximum_jobs := None\<rparr> else jl))) \<and>
   (backend_properties e (name self) (map_option (local_to_utc e) datetime) = Inr raw \<and>
    truthy raw \<and> (datetime \<noteq> None \<or> refresh \<or> properties_attr self = None) \<longrightarrow>
      fst (properties e self refresh datetime) =
        (case decode_backend_properties e raw of
           Inl ex \<Rightarrow> Inl ex
         | Inr decoded \<Rightarrow>
             (case BackendProperties_from_dict e (utc_to_local_all e decoded) of
                Inl ex \<Rightarrow> Inl ex
              | Inr props \<Rightarrow> Inr (Some props)))) \<and>
   (backend_pulse_defaults e (name self) = Inr raw \<and> truthy raw \<and>
    (refresh \<or> defaults_attr self = None) \<longrightarrow>
      fst (defaults e self refresh) =
        (case decode_pulse_defaults e raw of
           Inl ex \<Rightarrow> Inl ex
         | Inr decoded \<Rightarrow>
             (case PulseDefaults_from_dict e decoded of
                Inl ex \<Rightarrow> Inl ex
              | Inr d \<Rightarrow> Inr (Some d)))) \<and>
   (backend_reservations e (name self) (map_option (local_to_utc e) s)
      (map_option (local_to_utc e) t) = Inr raw \<longrightarrow>
      fst (reservations e self s t) = convert_reservation_data e raw (name self))"
  by (auto simp: status_def job_limit_def properties_def defaults_def reservations_def Let_def
           split: sum.splits)

theorem accessors_on_malformed_responses_witness:
  "fst (status ((env0 (PInt 3))\<lparr>BackendStatus_from_dict :=
          (\<lambda>d. Inl ''argument after ** must be a mapping'')\<rparr>) backend0) =
     Inl (IBMBackendApiProtocolError
       (''Unexpected return value received from the server when '' @
        ''getting backend status: '' @ ''argument after ** must be a mapping'')) \<and>
   fst (job_limit (env0 (PInt 3)) backend0) =
     Inl (IBMBackendApiProtocolError
       (''Unexpected return value received from the server when '' @
        ''querying job limit data for the backend: '' @
        ''argument after ** must be a mapping'' @ ''.'')) \<and>
   fst (properties env_mistyped backend0 False None) =
     Inl (TypeError ''int object is not iterable'') \<and>
   fst (defaults env_mistyped backend0 False) =
     Inl (TypeError ''int object is not iterable'') \<and>
   fst (reservations (env0 (PInt 3)) backend0 None None) = Inr []"
  using accessors_on_malformed_responses
      [where e = "(env0 (PInt 3))\<lparr>BackendStatus_from_dict :=
          (\<lambda>d. Inl ''argument after ** must be a mapping'')\<rparr>"
         and self = backend0 and raw = "PInt 3"]
    accessors_on_malformed_responses
      [where e = "env0 (PInt 3)" and self = backend0 and raw = "PInt 3" and s = None and t = None]
    accessors_on_malformed_responses
      [where e = env_mistyped and self = backend0 and refresh = False and datetime = None
         and raw = "PDict [(''backend_name'', PStr ''ibmq_test''), (''qubits'', PInt 5)]"]
  by (simp add: env_mistyped_def env0_def backend0_def cfg0_def name_def)

section \<open>The \<open>id\<close> instruction is replaced, with one warning\<close>

lemma run_checked_circuits:
  "\<not> simulator (configuration self) \<Longrightarrow>
     snd (snd (run_checked e self a esp)) =
     snd (snd (deprecate_id_instruction e self (circuits a)))"
  by (auto simp: run_checked_def Let_def split: prod.splits sum.splits)

lemma run_checked_Inr:
  assumes "run_checked e self a esp = (Inr job, self', circs')"
  shows "\<exists>self2 rc. submit_circuits e self2 a circs' rc = (Inr job, self') \<and>
           configuration_attr self2 = configuration_attr self \<and>
           filter is_job_submit (api_calls self2) = filter is_job_submit (api_calls self) \<and>
           (if simulator (configuration self) then circs' = circuits a
            else \<exists>u s1. deprecate_id_instruction e self (circuits a) = (Inr u, s1, circs'))"
proof -
  obtain r1 self1 c1 where d: "(if \<not> simulator (configuration self)
               then deprecate_id_instruction e self (circuits a)
               else (Inr (), self, circuits a)) = (r1, self1, c1)"
    by (cases "(if \<not> simulator (configuration self)
               then deprecate_id_instruction e self (circuits a)
               else (Inr (), self, circuits a))") auto
  have f1: "run_frame self self1 \<and>
     filter is_job_submit (api_calls self1) = filter is_job_submit (api_calls self)"
    using d deprecate_frame[of e self "circuits a" r1 self1 c1]
    by (auto simp: run_frame_refl split: if_splits)
  have e1: "run_checked e self a esp =
      (case r1 of
         Inl ex \<Rightarrow> (Inl ex, self1, c1)
       | Inr u \<Rightarrow>
           (case call_kwargs ''_get_run_config'' (explicit_kwargs a esp) (run_config a) of
              Inl ex \<Rightarrow> (Inl ex, self1, c1)
            | Inr kwargs \<Rightarrow>
                (case get_run_config self1 kwargs of
                   (rc0, self2) \<Rightarrow>
                     (let rc1 = (if truthy (parameter_binds a)
                                 then AList.update ''parameter_binds'' (parameter_binds a) rc0
                                 else rc0);
                          rc2 = (case (if simulator (configuration self)
                                       then simulation_method (configuration self) else None) of
                                   None \<Rightarrow> rc1
                                 | Some m \<Rightarrow>
                                     if m \<noteq> [] \<and> ''method'' \<notin> set (map fst rc1)
                                     then AList.update ''method'' (PStr m) rc1
                                     else rc1)
                      in case submit_circuits e self2 a c1 rc2 of
                           (r, self3) \<Rightarrow> (r, self3, c1)))))"
    unfolding run_checked_def Let_def d by (cases r1) simp_all
  obtain u where r1: "r1 = Inr u" using assms e1 by (cases r1) simp_all
  obtain kwargs where k: "call_kwargs ''_get_run_config'' (explicit_kwargs a esp) (run_config a)
      = Inr kwargs"
    using assms e1 r1
    by (cases "call_kwargs ''_get_run_config'' (explicit_kwargs a esp) (run_config a)") simp_all
  obtain rc0 self2 where g: "get_run_config self1 kwargs = (rc0, self2)"
    by (cases "get_run_config self1 kwargs")
  obtain rc2 where e2: "run_checked e self a esp =
      (case submit_circuits e self2 a c1 rc2 of (r, self3) \<Rightarrow> (r, self3, c1))"
    using e1 r1 k g by (simp add: Let_def)
  obtain r3 self3 where s3: "submit_circuits e self2 a c1 rc2 = (r3, self3)"
    by (cases "submit_circuits e self2 a c1 rc2")
  have s: "submit_circuits e self2 a c1 rc2 = (Inr job, self')" and c: "circs' = c1"
    using assms e2 s3 by simp_all
  have f2: "configuration_attr self2 = configuration_attr self1 \<and> api_calls self2 = api_calls self1"
    using get_run_config_frame[of self1 kwargs] g by (simp add: run_frame_def)
  have "if simulator (configuration self) then circs' = circuits a
        else \<exists>u s1. deprecate_id_instruction e self (circuits a) = (Inr u, s1, circs')"
    using d r1 c by (auto split: if_splits)
  then show ?thesis using s c f1 f2 by (auto simp: run_frame_def)
qed

lemma run_Inr:
  assumes "run e self a = (Inr job, self', circs')"
  shows "\<exists>esp. run_checked e self a esp = (Inr job, self', circs')"
  using assms
  by (auto simp: run_def Let_def split: sum.splits if_splits)

lemma run_circuits:
  "\<not> simulator (configuration self) \<Longrightarrow> well_formed_tags (job_tags a) \<Longrightarrow>
   (use_measure_esp a = Some True \<longrightarrow> measure_esp_enabled (configuration self) = Some True) \<Longrightarrow>
     snd (snd (run e self a)) = snd (snd (deprecate_id_instruction e self (circuits a)))"
  by (cases "use_measure_esp a"; cases "measure_esp_enabled (configuration self)")
     (auto simp: run_def Let_def validate_job_tags_def getattr_bool_def run_checked_circuits)

lemma self_properties_cached:
  "\<not> is_IBMSimulator self \<Longrightarrow> properties_attr self = Some props \<Longrightarrow>
     self_properties e self False None = (Inr (Some props), self)"
  by (simp add: self_properties_def properties_def)

lemma replace_ids_cached_eq:
  assumes "\<not> is_IBMSimulator self" and "properties_attr self = Some props"
    and "sx_known e props (QuantumCircuit d)"
  shows "replace_ids e self dt_in_s d = (Inr (), self, map (replacement e props dt_in_s) d)"
  using assms(3)
proof (induction d)
  case Nil
  then show ?case by simp
next
  case (Cons x d)
  obtain instr qargs cargs where x: "x = (instr, qargs, cargs)" by (cases x)
  from Cons.prems have rest: "sx_known e props (QuantumCircuit d)"
    by (simp add: sx_known_def)
  then have d': "replace_ids e self dt_in_s d =
      (Inr (), self, map (replacement e props dt_in_s) d)"
    using Cons.IH by blast
  show ?case
  proof (cases "instr_name instr = ''id''")
    case False
    then show ?thesis using x d' by simp
  next
    case True
    then obtain q0 qs sx where "qargs = q0 # qs" "gate_length e props ''sx'' q0 = Inr sx"
      using Cons.prems x by (auto simp: sx_known_def split: list.splits sum.splits)
    then show ?thesis
      using True x d' self_properties_cached[OF assms(1,2), of e] by simp
  qed
qed

lemma replace_in_circuits_cached_eq:
  assumes "\<not> is_IBMSimulator self" and "properties_attr self = Some props"
    and "list_all (sx_known e props) cs"
  shows "replace_in_circuits e self dt_in_s cs =
           (Inr (), self, map (replacement_circuit e props dt_in_s) cs)"
  using assms(3)
proof (induction cs)
  case Nil
  then show ?case by simp
next
  case (Cons c cs)
  then have cs': "replace_in_circuits e self dt_in_s cs =
      (Inr (), self, map (replacement_circuit e props dt_in_s) cs)"
    by auto
  show ?case
  proof (cases c)
    case (Schedule s)
    then show ?thesis using cs' by simp
  next
    case (QuantumCircuit d)
    then have "replace_ids e self dt_in_s d = (Inr (), self, map (replacement e props dt_in_s) d)"
      using replace_ids_cached_eq[OF assms(1,2), of e d dt_in_s] Cons.prems by auto
    then show ?thesis using QuantumCircuit cs' by simp
  qed
qed

lemma replacement_without_id:
  "\<not> has_id c \<Longrightarrow> replacement_circuit e props dt_in_s c = c"
proof (cases c)
  case (QuantumCircuit d)
  assume "\<not> has_id c"
  then have "\<forall>x\<in>set d. replacement e props dt_in_s x = x"
    using QuantumCircuit by (auto simp: has_id_def list_ex_iff)
  then show ?thesis using QuantumCircuit by (simp add: map_idI)
next
  case (Schedule s)
  then show ?thesis by simp
qed

lemma deprecate_completes_eq:
  assumes "''delay'' \<in> set (getattr_list (supported_instructions (configuration self)))"
    and "\<not> is_IBMSimulator self" and "properties_attr self = Some props"
    and "dt (configuration self) = Some d"
    and "list_all (sx_known e props) (as_list c)"
  shows "\<exists>self' c'. deprecate_id_instruction e self c = (Inr (), self', c') \<and>
           as_list c' = map (replacement_circuit e props d) (as_list c)"
proof (cases "list_ex has_id (as_list c)")
  case False
  then have "deprecate_id_instruction e self c = (Inr (), self, c)"
    by (simp add: deprecate_id_instruction_def Let_def)
  moreover have "map (replacement_circuit e props d) (as_list c) = as_list c"
    using False by (auto simp: list_ex_iff replacement_without_id intro: map_idI)
  ultimately show ?thesis by simp
next
  case True
  let ?w = "DeprecationWarning
              (if ''id'' \<in> set (getattr_list (basis_gates (configuration self))) \<and>
                  ''delay'' \<in> set (getattr_list (supported_instructions (configuration self)))
               then id_deprecated_msg else id_removed_msg)"
  let ?s1 = "if \<not> id_warning_issued self
             then (warn ?w self)\<lparr>id_warning_issued := True\<rparr> else self"
  have "\<not> is_IBMSimulator ?s1" "properties_attr ?s1 = Some props"
    using assms(2,3) by (simp_all add: warn_def)
  then have r: "replace_in_circuits e ?s1 d (as_list c) =
      (Inr (), ?s1, map (replacement_circuit e props d) (as_list c))"
    using replace_in_circuits_cached_eq[of ?s1 props e "as_list c" d] assms(5) by blast
  have "deprecate_id_instruction e self c =
      (Inr (), ?s1, updated_arg c (map (replacement_circuit e props d) (as_list c)))"
    using True assms(1,4) r
    by (auto simp: deprecate_id_instruction_def Let_def cong: if_cong)
  moreover have "as_list (updated_arg c (map (replacement_circuit e props d) (as_list c))) =
      map (replacement_circuit e props d) (as_list c)"
    by (simp add: as_list_updated_arg)
  ultimately show ?thesis by simp
qed

lemma properties_given_step:
  assumes "\<not> is_IBMSimulator self" and "fst (properties e self False None) = Inr (Some props)"
  shows "\<exists>self1. self_properties e self False None = (Inr (Some props), self1) \<and>
           \<not> is_IBMSimulator self1 \<and> properties_attr self1 = Some props"
  using assms
  by (auto simp: self_properties_def properties_def Let_def call_api_def
           split: sum.splits if_splits)

lemma properties_given_cached:
  "\<not> is_IBMSimulator self \<Longrightarrow> properties_attr self = Some props \<Longrightarrow>
     fst (properties e self False None) = Inr (Some props)"
  by (simp add: properties_def)

lemma replace_ids_given_eq:
  assumes "\<not> is_IBMSimulator self" and "fst (properties e self False None) = Inr (Some props)"
    and "sx_known e props (QuantumCircuit d)"
  shows "\<exists>self'. replace_ids e self dt_in_s d = (Inr (), self', map (replacement e props dt_in_s) d) \<and>
           \<not> is_IBMSimulator self' \<and> fst (properties e self' False None) = Inr (Some props)"
  using assms
proof (induction d arbitrary: self)
  case Nil
  then show ?case by simp
next
  case (Cons x d)
  obtain instr qargs cargs where x: "x = (instr, qargs, cargs)" by (cases x)
  from Cons.prems have rest: "sx_known e props (QuantumCircuit d)"
    by (simp add: sx_known_def)
  show ?case
  proof (cases "instr_name instr = ''id''")
    case False
    obtain self' where "replace_ids e self dt_in_s d =
        (Inr (), self', map (replacement e props dt_in_s) d)"
      "\<not> is_IBMSimulator self'" "fst (properties e self' False None) = Inr (Some props)"
      using Cons.IH[OF Cons.prems(1,2) rest] by blast
    then show ?thesis using False x by simp
  next
    case True
    obtain q0 qs sx where q: "qargs = q0 # qs" "gate_length e props ''sx'' q0 = Inr sx"
      using Cons.prems(3) x True by (auto simp: sx_known_def split: list.splits sum.splits)
    obtain self1 where p: "self_properties e self False None = (Inr (Some props), self1)"
      "\<not> is_IBMSimulator self1" "properties_attr self1 = Some props"
      using properties_given_step[OF Cons.prems(1,2)] by blast
    have p1: "fst (properties e self1 False None) = Inr (Some props)"
      using p(2,3) by (rule properties_given_cached)
    obtain self' where "replace_ids e self1 dt_in_s d =
        (Inr (), self', map (replacement e props dt_in_s) d)"
      "\<not> is_IBMSimulator self'" "fst (properties e self' False None) = Inr (Some props)"
      using Cons.IH[OF p(2) p1 rest] by blast
    then show ?thesis using True x q p(1) by simp
  qed
qed

lemma replace_in_circuits_given_eq:
  assumes "\<not> is_IBMSimulator self" and "fst (properties e self False None) = Inr (Some props)"
    and "list_all (sx_known e props) cs"
  shows "\<exists>self'. replace_in_circuits e self dt_in_s cs =
           (Inr (), self', map (replacement_circuit e props dt_in_s) cs) \<and>
           \<not> is_IBMSimulator self' \<and> fst (properties e self' False None) = Inr (Some props)"
  using assms
proof (induction cs arbitrary: self)
  case Nil
  then show ?case by simp
next
  case (Cons c cs)
  from Cons.prems have rest: "list_all (sx_known e props) cs" and c: "sx_known e props c"
    by simp_all
  show ?case
  proof (cases c)
    case (Schedule s)
    obtain self' where "replace_in_circuits e self dt_in_s cs =
           (Inr (), self', map (replacement_circuit e props dt_in_s) cs)"
      "\<not> is_IBMSimulator self'" "fst (properties e self' False None) = Inr (Some props)"
      using Cons.IH[OF Cons.prems(1,2) rest] by blast
    then show ?thesis using Schedule by simp
  next
    case (QuantumCircuit d)
    obtain self1 where d: "replace_ids e self dt_in_s d =
        (Inr (), self1, map (replacement e props dt_in_s) d)"
      "\<not> is_IBMSimulator self1" "fst (properties e self1 False None) = Inr (Some props)"
      using replace_ids_given_eq[OF Cons.prems(1,2), of d dt_in_s] c QuantumCircuit by blast
    obtain self' where "replace_in_circuits e self1 dt_in_s cs =
           (Inr (), self', map (replacement_circuit e props dt_in_s) cs)"
      "\<not> is_IBMSimulator self'" "fst (properties e self' False None) = Inr (Some props)"
      using Cons.IH[OF d(2,3) rest] by blast
    then show ?thesis using QuantumCircuit d(1) by simp
  qed
qed

lemma deprecate_completes_given:
  assumes "''delay'' \<in> set (getattr_list (supported_instructions (configuration self)))"
    and "\<not> is_IBMSimulator self"
    and "fst (properties e self False None) = Inr (Some props)"
    and "dt (configuration self) = Some d"
    and "list_all (sx_known e props) (as_list c)"
  shows "\<exists>self' c'. deprecate_id_instruction e self c = (Inr (), self', c') \<and>
           as_list c' = map (replacement_circuit e props d) (as_list c)"
proof (cases "list_ex has_id (as_list c)")
  case False
  then have "deprecate_id_instruction e self c = (Inr (), self, c)"
    by (simp add: deprecate_id_instruction_def Let_def)
  moreover have "map (replacement_circuit e props d) (as_list c) = as_list c"
    using False by (auto simp: list_ex_iff replacement_without_id intro: map_idI)
  ultimately show ?thesis by simp
next
  case True
  let ?w = "DeprecationWarning
              (if ''id'' \<in> set (getattr_list (basis_gates (configuration self))) \<and>
                  ''delay'' \<in> set (getattr_list (supported_instructions (configuration self)))
               then id_deprecated_msg else id_removed_msg)"
  let ?s1 = "if \<not> id_warning_issued self
             then (warn ?w self)\<lparr>id_warning_issued := True\<rparr> else self"
  have "\<not> is_IBMSimulator ?s1" using assms(2) by (simp add: warn_def)
  moreover have "fst (properties e ?s1 False None) = Inr (Some props)"
    using assms(3)
    by (auto simp: warn_def properties_def Let_def call_api_def name_def
             split: sum.splits if_splits)
  ultimately obtain s2 where r: "replace_in_circuits e ?s1 d (as_list c) =
      (Inr (), s2, map (replacement_circuit e props d) (as_list c))"
    using replace_in_circuits_given_eq[of ?s1 e props "as_list c" d] assms(5) by blast
  have "deprecate_id_instruction e self c =
      (Inr (), s2, updated_arg c (map (replacement_circuit e props d) (as_list c)))"
    using True assms(1,4) r
    by (auto simp: deprecate_id_instruction_def Let_def cong: if_cong)
  moreover have "as_list (updated_arg c (map (replacement_circuit e props d) (as_list c))) =
      map (replacement_circuit e props d) (as_list c)"
    by (simp add: as_list_updated_arg)
  ultimately show ?thesis by simp
qed

lemma run_rejected:
  assumes "\<not> well_formed_tags (job_tags a) \<or>
           (use_measure_esp a = Some True \<and> measure_esp_enabled (configuration self) \<noteq> Some True)"
  shows "(\<exists>msg. fst (run e self a) = Inl (IBMBackendValueError msg)) \<and>
         snd (run e self a) = (self, circuits a)"
  using assms
  by (cases "measure_esp_enabled (configuration self)")
     (auto simp: run_def Let_def validate_job_tags_def getattr_bool_def)

text \<open>
  C3, amended. On a backend that is not a simulator and supports \<open>delay\<close>: over any
  sequence of \<open>run\<close> calls, the warning about the \<open>id\<close> instruction is issued at
  most once for the instance, and the configuration the two conditions are read from
  stays the same. A call that validation rejects (malformed job tags, or
  \<open>use_measure_esp=True\<close> on a backend that does not declare ESP readout) raises
  \<open>IBMBackendValueError\<close> and leaves the backend and the caller's circuits as they
  were. The caller's circuits after a \<open>run\<close> that passed validation are those the
  replacement step left. Each time the replacement step completes, and so after
  every \<open>run\<close> that returns a job, every entry of every \<open>QuantumCircuit\<close> that
  held an \<open>id\<close> instruction holds a \<open>Delay\<close> on the same qubits and clbits
  instead, the other entries are what they were, and no \<open>id\<close> instruction is
  left. The replacement step does complete when \<open>properties()\<close> gives properties
  (cached, or fetched by the first request), the configuration has \<open>dt\<close> and the
  properties give an \<open>sx\<close> gate length for the first qubit of every \<open>id\<close>
  instruction; each \<open>id\<close> instruction is then replaced by the \<open>Delay\<close> of that
  length converted to \<open>dt\<close>.
\<close>

theorem id_deprecation_once:
  assumes "\<not> simulator (configuration self)"
    and "''delay'' \<in> set (getattr_list (supported_instructions (configuration self)))"
  shows "id_warning_count (run_all self calls) \<le>
           id_warning_count self + (if id_warning_issued self then 0 else 1) \<and>
         configuration (run_all self calls) = configuration self \<and>
         (deprecate_id_instruction e self c = (Inr u, self', c') \<longrightarrow>
            list_all2 replaced_circuit (as_list c) (as_list c') \<and>
            list_all (\<lambda>x. \<not> has_id x) (as_list c')) \<and>
         (well_formed_tags (job_tags a) \<and>
          (use_measure_esp a = Some True \<longrightarrow>
             measure_esp_enabled (configuration self) = Some True) \<longrightarrow>
            snd (snd (run e self a)) =
            snd (snd (deprecate_id_instruction e self (circuits a)))) \<and>
         (run e self a = (Inr job, self'', circs'') \<longrightarrow>
            list_all2 replaced_circuit (as_list (circuits a)) (as_list circs'') \<and>
            list_all (\<lambda>x. \<not> has_id x) (as_list circs'')) \<and>
         (\<not> is_IBMSimulator self \<and> properties_attr self = Some props \<and>
          dt (configuration self) = Some d \<and> list_all (sx_known e props) (as_list c) \<longrightarrow>
            (\<exists>s1 c1. deprecate_id_instruction e self c = (Inr (), s1, c1) \<and>
               as_list c1 = map (replacement_circuit e props d) (as_list c))) \<and>
         (\<not> well_formed_tags (job_tags a) \<or>
          (use_measure_esp a = Some True \<and>
           measure_esp_enabled (configuration self) \<noteq> Some True) \<longrightarrow>
            (\<exists>msg. fst (run e self a) = Inl (IBMBackendValueError msg)) \<and>
            snd (run e self a) = (self, circuits a)) \<and>
         (\<not> is_IBMSimulator self \<and> fst (properties e self False None) = Inr (Some props) \<and>
          dt (configuration self) = Some d \<and> list_all (sx_known e props) (as_list c) \<longrightarrow>
            (\<exists>s1 c1. deprecate_id_instruction e self c = (Inr (), s1, c1) \<and>
               as_list c1 = map (replacement_circuit e props d) (as_list c)))"
proof (intro conjI impI)
  have "run_frame self (run_all self calls)" by (rule run_all_frame)
  then show "id_warning_count (run_all self calls) \<le>
           id_warning_count self + (if id_warning_issued self then 0 else 1)"
    and "configuration (run_all self calls) = configuration self"
    by (auto simp: run_frame_def id_potential_def configuration_def split: if_splits)
next
  assume "deprecate_id_instruction e self c = (Inr u, self', c')"
  then show "list_all2 replaced_circuit (as_list c) (as_list c')"
    and "list_all (\<lambda>x. \<not> has_id x) (as_list c')"
    using deprecate_Inr[OF assms(2)] by blast+
next
  assume "well_formed_tags (job_tags a) \<and>
          (use_measure_esp a = Some True \<longrightarrow>
             measure_esp_enabled (configuration self) = Some True)"
  then show "snd (snd (run e self a)) =
            snd (snd (deprecate_id_instruction e self (circuits a)))"
    using run_circuits[OF assms(1)] by blast
next
  assume r: "run e self a = (Inr job, self'', circs'')"
  then obtain esp where "run_checked e self a esp = (Inr job, self'', circs'')"
    using run_Inr by blast
  then obtain u1 s1 where "deprecate_id_instruction e self (circuits a) = (Inr u1, s1, circs'')"
    using run_checked_Inr[of e self a esp job self'' circs''] assms(1) by auto
  then show "list_all2 replaced_circuit (as_list (circuits a)) (as_list circs'')"
    and "list_all (\<lambda>x. \<not> has_id x) (as_list circs'')"
    using deprecate_Inr[OF assms(2)] by blast+
next
  assume "\<not> is_IBMSimulator self \<and> properties_attr self = Some props \<and>
          dt (configuration self) = Some d \<and> list_all (sx_known e props) (as_list c)"
  then show "\<exists>s1 c1. deprecate_id_instruction e self c = (Inr (), s1, c1) \<and>
               as_list c1 = map (replacement_circuit e props d) (as_list c)"
    using deprecate_completes_eq[OF assms(2), of props d e c] by blast
next
  assume "\<not> well_formed_tags (job_tags a) \<or>
          (use_measure_esp a = Some True \<and>
           measure_esp_enabled (configuration self) \<noteq> Some True)"
  then show "\<exists>msg. fst (run e self a) = Inl (IBMBackendValueError msg)"
    and "snd (run e self a) = (self, circuits a)"
    using run_rejected[of a self e] by blast+
next
  assume "\<not> is_IBMSimulator self \<and> fst (properties e self False None) = Inr (Some props) \<and>
          dt (configuration self) = Some d \<and> list_all (sx_known e props) (as_list c)"
  then show "\<exists>s1 c1. deprecate_id_instruction e self c = (Inr (), s1, c1) \<and>
               as_list c1 = map (replacement_circuit e props d) (as_list c)"
    using deprecate_completes_given[OF assms(2), of e props d c] by blast
qed

text \<open>The definitions unfolded to evaluate a concrete call.\<close>

lemmas eval_defs = args0_def backend0_def cfg0_def configuration_def getattr_bool_def
        run_def validate_job_tags_def
        run_checked_def deprecate_id_instruction_def getattr_list_def as_list_def has_id_def
        call_kwargs_def explicit_kwargs_def get_run_config_def submit_circuits_def
        submit_job_def call_api_def name_def env0_def default_options_def Let_def
        chunk_size_of_def circuits_list_of_def py_slice_def updated_arg_def
        self_properties_def properties_def warn_def circ0_def


theorem id_deprecation_once_witness:
  "\<not> simulator (configuration backend0) \<and>
   ''delay'' \<in> set (getattr_list (supported_instructions (configuration backend0))) \<and>
   has_id circ0 \<and>
   snd (snd (run (env0 (PStr ''props'')) backend0 (args0 (One circ0)))) =
     One (QuantumCircuit
            [(Gate ''sx'', [0], []), (Delay 160, [1], []), (Gate ''cx'', [0, 1], [])]) \<and>
   id_warning_count
     (run_all backend0
        [(env0 (PStr ''props''), args0 (One circ0)),
         (env0 (PStr ''props''), args0 (Many [circ0, Schedule 1, circ0]))]) = 1 \<and>
   list_all (sx_known (env0 (PStr ''props'')) (BackendProperties (PStr ''cached'')))
     (as_list (One circ0)) \<and>
   deprecate_id_instruction (env0 (PStr ''props'')) backend1 (One circ0) =
     (Inr (),
      backend1\<lparr>id_warning_issued := True,
               warnings := [DeprecationWarning id_deprecated_msg]\<rparr>,
      One (QuantumCircuit
             [(Gate ''sx'', [0], []), (Delay 160, [1], []), (Gate ''cx'', [0, 1], [])])) \<and>
   \<not> is_IBMSimulator backend0 \<and>
   fst (properties (env0 (PStr ''props'')) backend0 False None) =
     Inr (Some (BackendProperties (PStr ''props''))) \<and>
   dt (configuration backend0) = Some 1 \<and>
   as_list (snd (snd (deprecate_id_instruction (env0 (PStr ''props'')) backend0 (One circ0)))) =
     map (replacement_circuit (env0 (PStr ''props'')) (BackendProperties (PStr ''props'')) 1)
       (as_list (One circ0)) \<and>
   use_measure_esp ((args0 (One circ0))\<lparr>use_measure_esp := Some True\<rparr>) = Some True \<and>
   measure_esp_enabled (configuration backend0) \<noteq> Some True \<and>
   run (env0 (PStr ''props'')) backend0 ((args0 (One circ0))\<lparr>use_measure_esp := Some True\<rparr>) =
     (Inl (IBMBackendValueError esp_unsupported_msg), backend0, One circ0)"
proof -
  have k1: "\<not> simulator (configuration backend1)"
    by (simp add: backend1_def backend0_def cfg0_def configuration_def)
  have k2: "''delay'' \<in> set (getattr_list (supported_instructions (configuration backend1)))"
    by (simp add: backend1_def backend0_def cfg0_def configuration_def getattr_list_def)
  have k3: "list_all (sx_known (env0 (PStr ''props'')) (BackendProperties (PStr ''cached'')))
     (as_list (One circ0))"
    by (simp add: sx_known_def as_list_def circ0_def env0_def)
  have k4: "deprecate_id_instruction (env0 (PStr ''props'')) backend1 (One circ0) =
     (Inr (),
      backend1\<lparr>id_warning_issued := True,
               warnings := [DeprecationWarning id_deprecated_msg]\<rparr>,
      One (QuantumCircuit
             [(Gate ''sx'', [0], []), (Delay 160, [1], []), (Gate ''cx'', [0, 1], [])]))"
    by (simp add: eval_defs backend1_def)
  have h1: "\<not> simulator (configuration backend0)"
    by (simp add: backend0_def cfg0_def configuration_def)
  have h2: "''delay'' \<in> set (getattr_list (supported_instructions (configuration backend0)))"
    by (simp add: backend0_def cfg0_def configuration_def getattr_list_def)
  have hid: "has_id circ0" by (simp add: has_id_def circ0_def)
  have r1: "fst (run (env0 (PStr ''props'')) backend0 (args0 (One circ0))) =
     Inr (IBMCircuitJob
            (Qobj (PDict (AList.update ''use_measure_esp'' (PBool False) default_options)))
            [(''job_id'', PStr ''j1'')])"
    by (simp add: eval_defs)
  have r2: "snd (snd (run (env0 (PStr ''props'')) backend0 (args0 (One circ0)))) =
     One (QuantumCircuit
            [(Gate ''sx'', [0], []), (Delay 160, [1], []), (Gate ''cx'', [0, 1], [])])"
    by (simp add: eval_defs)
  have c: "id_warning_count
     (run_all backend0
        [(env0 (PStr ''props''), args0 (One circ0)),
         (env0 (PStr ''props''), args0 (Many [circ0, Schedule 1, circ0]))]) = 1"
    by (simp add: eval_defs id_warning_count_def)
  have g1: "\<not> is_IBMSimulator backend0" by (simp add: backend0_def)
  have g2: "fst (properties (env0 (PStr ''props'')) backend0 False None) =
     Inr (Some (BackendProperties (PStr ''props'')))"
    by (simp add: eval_defs)
  have g3: "dt (configuration backend0) = Some 1"
    by (simp add: backend0_def cfg0_def configuration_def)
  have g4: "list_all (sx_known (env0 (PStr ''props'')) (BackendProperties (PStr ''props'')))
     (as_list (One circ0))"
    by (simp add: sx_known_def as_list_def circ0_def env0_def)
  have m1: "use_measure_esp ((args0 (One circ0))\<lparr>use_measure_esp := Some True\<rparr>) = Some True"
    by simp
  have m2: "measure_esp_enabled (configuration backend0) \<noteq> Some True"
    by (simp add: backend0_def cfg0_def configuration_def)
  have m3: "fst (run (env0 (PStr ''props'')) backend0
                  ((args0 (One circ0))\<lparr>use_measure_esp := Some True\<rparr>)) =
     Inl (IBMBackendValueError esp_unsupported_msg)"
    by (simp add: eval_defs)
  have m4: "circuits ((args0 (One circ0))\<lparr>use_measure_esp := Some True\<rparr>) = One circ0"
    by (simp add: args0_def)
  show ?thesis
    using id_deprecation_once
      [OF h1 h2,
       where calls = "[(env0 (PStr ''props''), args0 (One circ0)),
                       (env0 (PStr ''props''), args0 (Many [circ0, Schedule 1, circ0]))]"
         and e = "env0 (PStr ''props'')" and a = "args0 (One circ0)"
         and c = "One circ0" and u = "()" and props = "BackendProperties (PStr ''props'')"
         and d = 1
         and self' = "fst (snd (deprecate_id_instruction (env0 (PStr ''props'')) backend0
                                  (One circ0)))"
         and c' = "snd (snd (deprecate_id_instruction (env0 (PStr ''props'')) backend0
                                  (One circ0)))"
         and job = "IBMCircuitJob
            (Qobj (PDict (AList.update ''use_measure_esp'' (PBool False) default_options)))
            [(''job_id'', PStr ''j1'')]"
         and self'' = "fst (snd (run (env0 (PStr ''props'')) backend0 (args0 (One circ0))))"
         and circs'' = "One (QuantumCircuit
            [(Gate ''sx'', [0], []), (Delay 160, [1], []), (Gate ''cx'', [0, 1], [])])"]
      id_deprecation_once
      [OF k1 k2,
       where calls = "[]" and e = "env0 (PStr ''props'')" and a = "args0 (One circ0)"
         and c = "One circ0" and u = "()"
         and props = "BackendProperties (PStr ''cached'')" and d = 1
         and self' = "fst (snd (deprecate_id_instruction (env0 (PStr ''props'')) backend1
                                  (One circ0)))"
         and c' = "snd (snd (deprecate_id_instruction (env0 (PStr ''props'')) backend1
                                  (One circ0)))"
         and job = "IBMCircuitJob
            (Qobj (PDict (AList.update ''use_measure_esp'' (PBool False) default_options)))
            [(''job_id'', PStr ''j1'')]"
         and self'' = "fst (snd (run (env0 (PStr ''props'')) backend1 (args0 (One circ0))))"
         and circs'' = "snd (snd (run (env0 (PStr ''props'')) backend1 (args0 (One circ0))))"]
      id_deprecation_once
      [OF h1 h2,
       where calls = "[]" and e = "env0 (PStr ''props'')"
         and a = "(args0 (One circ0))\<lparr>use_measure_esp := Some True\<rparr>"
         and c = "One circ0" and u = "()"
         and props = "BackendProperties (PStr ''props'')" and d = 1
         and self' = backend0 and c' = "One circ0"
         and job = "IBMCircuitJob (Qobj PNone) []"
         and self'' = backend0 and circs'' = "One circ0"]
      h1 h2 hid r1 r2 c k3 k4 g1 g2 g3 g4 m1 m2 m3 m4
    by (auto simp: prod_eq_iff)
qed

text \<open>
  C3 as stated fails: it says that no \<open>id\<close> instruction remains after each
  \<open>run\<close> call. On a backend that is not a simulator and supports \<open>delay\<close>, a
  call with \<open>use_measure_esp=True\<close> is rejected by the check of ESP readout, which
  comes before \<open>_deprecate_id_instruction\<close>: \<open>run\<close> raises
  \<open>IBMBackendValueError\<close> and the circuit still holds its \<open>id\<close> instruction. So
  does a call during which \<open>properties()\<close> returns \<open>None\<close> (the server has no
  properties for the backend): the replacement raises \<open>AttributeError\<close> at the
  first \<open>id\<close> instruction and leaves the circuit as it was.
\<close>

theorem run_leaves_id:
  "\<not> simulator (configuration backend0) \<and>
   ''delay'' \<in> set (getattr_list (supported_instructions (configuration backend0))) \<and>
   has_id circ0 \<and>
   run (env0 (PStr ''props'')) backend0 ((args0 (One circ0))\<lparr>use_measure_esp := Some True\<rparr>) =
     (Inl (IBMBackendValueError esp_unsupported_msg), backend0, One circ0) \<and>
   fst (run (env0 PNone) backend0 (args0 (One circ0))) =
     Inl (AttributeError ''NoneType object has no attribute gate_length'') \<and>
   snd (snd (run (env0 PNone) backend0 (args0 (One circ0)))) = One circ0"
  by (simp add: eval_defs)

section \<open>A list longer than the maximum is run in chunks\<close>









section \<open>An extra keyword named \<open>qobj_header\<close>\<close>

text \<open>
  C4 at the keyword \<open>qobj_header\<close>. \<open>run\<close> calls
  \<open>_get_run_config(qobj_header=header, ..., **run_config)\<close>, so an extra keyword of
  that name is given twice and Python raises \<open>TypeError\<close> before
  \<open>_get_run_config\<close> runs: the option does not reach the run configuration and
  the call ends with an error instead of a warning.
\<close>

theorem run_qobj_header_keyword:
  "fst (run (env0 PNone) backend0
          ((args0 (One (Schedule 7)))\<lparr>run_config := [(''qobj_header'', PDict [])]\<rparr>)) =
     Inl (TypeError (''_get_run_config() got multiple values for keyword argument '' @
                     [CHR 0x27] @ ''qobj_header'' @ [CHR 0x27]))"
  by (simp add: eval_defs)

section \<open>Options given as \<open>None\<close>\<close>

lemma final_run_config_other:
  "k \<noteq> ''parameter_binds'' \<Longrightarrow> k \<noteq> ''method'' \<Longrightarrow>
     map_of (final_run_config cfg a rc0) k = map_of rc0 k"
  by (simp add: final_run_config_def Let_def update_conv' split: option.splits)

lemma final_run_config_keeps:
  assumes "map_of rc0 k \<noteq> Some PNone" and "map_of rc0 k \<noteq> None"
  shows "map_of (final_run_config cfg a rc0) k \<noteq> Some PNone \<and>
         map_of (final_run_config cfg a rc0) k \<noteq> None"
  using assms
  by (auto simp: final_run_config_def Let_def update_conv' split: option.splits)

lemma deprecate_user_warnings:
  assumes "deprecate_id_instruction e self c = (r, self', c')"
  shows "options self' = options self \<and> is_IBMSimulator self' = is_IBMSimulator self \<and>
         count_list (warnings self') (UserWarning m) = count_list (warnings self) (UserWarning m)"
proof -
  let ?w = "DeprecationWarning
              (if ''id'' \<in> set (getattr_list (basis_gates (configuration self))) \<and>
                  ''delay'' \<in> set (getattr_list (supported_instructions (configuration self)))
               then id_deprecated_msg else id_removed_msg)"
  let ?s1 = "if \<not> id_warning_issued self
             then (warn ?w self)\<lparr>id_warning_issued := True\<rparr> else self"
  have s1: "options ?s1 = options self \<and> is_IBMSimulator ?s1 = is_IBMSimulator self \<and>
         count_list (warnings ?s1) (UserWarning m) = count_list (warnings self) (UserWarning m)"
    by (simp add: warn_def)
  have step: "\<And>d. cache_frame ?s1 (fst (snd (replace_in_circuits e ?s1 d (as_list c))))"
    by (rule replace_in_circuits_cache_frame)
  have "self' = self \<or> self' = ?s1 \<or>
        (\<exists>d. self' = fst (snd (replace_in_circuits e ?s1 d (as_list c))))"
  proof (cases "''delay'' \<in> set (getattr_list (supported_instructions (configuration self)))
                \<and> list_ex has_id (as_list c)")
    case False
    then have "deprecate_id_instruction e self c = (Inr (), self, c)"
      by (auto simp: deprecate_id_instruction_def Let_def)
    then show ?thesis using assms by simp
  next
    case True
    show ?thesis
    proof (cases "dt (configuration self)")
      case None
      then show ?thesis using assms True
        by (auto simp: deprecate_id_instruction_def Let_def)
    next
      case (Some d)
      obtain r2 s2 cs2 where rc: "replace_in_circuits e ?s1 d (as_list c) = (r2, s2, cs2)"
        by (cases "replace_in_circuits e ?s1 d (as_list c)")
      have "self' = s2" using True Some rc assms
        by (auto simp: deprecate_id_instruction_def Let_def cong: if_cong)
      then have "self' = fst (snd (replace_in_circuits e ?s1 d (as_list c)))"
        using rc by simp
      then show ?thesis by blast
    qed
  qed
  then consider "self' = self" | "self' = ?s1"
    | d where "self' = fst (snd (replace_in_circuits e ?s1 d (as_list c)))" by blast
  then show ?thesis
  proof cases
    case 1
    then show ?thesis by simp
  next
    case 2
    then show ?thesis using s1 by simp
  next
    case 3
    have "cache_frame ?s1 self'" using step[of d] 3 by simp
    then have "options self' = options ?s1 \<and> is_IBMSimulator self' = is_IBMSimulator ?s1 \<and>
        warnings self' = warnings ?s1"
      by (simp add: cache_frame_def)
    then show ?thesis using s1 by simp
  qed
qed

lemma explicit_kwargs_keys:
  "map fst (explicit_kwargs a esp) =
     [''qobj_header'', ''shots'', ''memory'', ''qubit_lo_freq'', ''meas_lo_freq'',
      ''schedule_los'', ''meas_level'', ''meas_return'', ''memory_slots'',
      ''memory_slot_size'', ''rep_time'', ''rep_delay'', ''init_qubits'',
      ''use_measure_esp'']"
  by (simp add: explicit_kwargs_def)

lemma call_kwargs_fresh:
  assumes "set (map fst extra) \<inter> set (map fst explicit) = {}"
  shows "call_kwargs f explicit extra = Inr (explicit @ extra)"
proof -
  have "filter (\<lambda>k. k \<in> set (map fst explicit)) (map fst extra) = []"
    using assms by (auto simp: filter_empty_conv)
  then show ?thesis by (simp add: call_kwargs_def)
qed

lemma kwargs_distinct:
  assumes "distinct (map fst (run_config a))"
    and "set (map fst (run_config a)) \<inter> set (map fst (explicit_kwargs a esp)) = {}"
  shows "distinct (map fst (explicit_kwargs a esp @ run_config a))"
proof -
  have "distinct (map fst (explicit_kwargs a esp))"
    by (simp add: explicit_kwargs_keys)
  then show ?thesis using assms by auto
qed

lemma run_reaches_config:
  assumes "well_formed_tags (job_tags a)"
    and "esp = (case use_measure_esp a of
                  None \<Rightarrow> getattr_bool (measure_esp_enabled (configuration self)) False
                | Some b \<Rightarrow> b)"
    and "esp \<longrightarrow> getattr_bool (measure_esp_enabled (configuration self)) False"
    and "(if \<not> simulator (configuration self)
          then deprecate_id_instruction e self (circuits a)
          else (Inr (), self, circuits a)) = (Inr u, self1, c1)"
    and "set (map fst (run_config a)) \<inter> set (map fst (explicit_kwargs a esp)) = {}"
  shows "run e self a =
           (case submit_circuits e
                   (snd (get_run_config self1 (explicit_kwargs a esp @ run_config a))) a c1
                   (final_run_config (configuration self) a
                      (fst (get_run_config self1 (explicit_kwargs a esp @ run_config a)))) of
              (r, self3) \<Rightarrow> (r, self3, c1))"
proof -
  have 1: "run e self a = run_checked e self a esp"
    using assms(1,2,3) by (auto simp: run_def Let_def validate_job_tags_def)
  have ck: "call_kwargs ''_get_run_config'' (explicit_kwargs a esp) (run_config a) =
      Inr (explicit_kwargs a esp @ run_config a)"
    using assms(5) by (rule call_kwargs_fresh)
  obtain rc0 self2 where g: "get_run_config self1 (explicit_kwargs a esp @ run_config a) =
      (rc0, self2)"
    by (cases "get_run_config self1 (explicit_kwargs a esp @ run_config a)")
  have "run_checked e self a esp =
      (case submit_circuits e self2 a c1 (final_run_config (configuration self) a rc0) of
         (r, self3) \<Rightarrow> (r, self3, c1))"
    unfolding run_checked_def Let_def assms(4) ck
    by (simp add: g final_run_config_def Let_def)
  then show ?thesis using 1 g by simp
qed

lemma submit_circuits_warnings:
  "warnings (snd (submit_circuits e self a c rc)) = warnings self"
  by (auto simp: submit_circuits_def submit_job_def Let_def call_api_def
           split: option.splits sum.splits circuits_arg.splits if_splits)

lemma submit_circuits_run_config:
  "submit_circuits e self (a\<lparr>run_config := x\<rparr>) c rc = submit_circuits e self a c rc"
  by (simp add: submit_circuits_def
           cong: option.case_cong sum.case_cong circuits_arg.case_cong if_cong)

lemma run_checked_filtered:
  assumes "set (map fst (run_config a)) \<inter> set (map fst (explicit_kwargs a esp)) = {}"
  shows "run_checked e self (a\<lparr>run_config := filter (\<lambda>kv. snd kv \<noteq> PNone) (run_config a)\<rparr>) esp =
         run_checked e self a esp"
proof -
  let ?a' = "a\<lparr>run_config := filter (\<lambda>kv. snd kv \<noteq> PNone) (run_config a)\<rparr>"
  have ex: "explicit_kwargs ?a' esp = explicit_kwargs a esp"
    by (simp add: explicit_kwargs_def)
  have ck: "call_kwargs ''_get_run_config'' (explicit_kwargs a esp) (run_config a) =
      Inr (explicit_kwargs a esp @ run_config a)"
    using assms by (rule call_kwargs_fresh)
  have "set (map fst (run_config ?a')) \<inter> set (map fst (explicit_kwargs a esp)) = {}"
    using assms by auto
  then have ck': "call_kwargs ''_get_run_config'' (explicit_kwargs a esp) (run_config ?a') =
      Inr (explicit_kwargs a esp @ run_config ?a')"
    by (rule call_kwargs_fresh)
  have g: "\<And>s. get_run_config s (explicit_kwargs a esp @ run_config ?a') =
      get_run_config s (explicit_kwargs a esp @ run_config a)"
  proof -
    fix s
    have "get_run_config s (explicit_kwargs a esp @ run_config ?a') =
        get_run_config s (filter (\<lambda>kv. snd kv \<noteq> PNone) (explicit_kwargs a esp @ run_config ?a'))"
      by (simp only: get_run_config_filter)
    also have "\<dots> = get_run_config s (filter (\<lambda>kv. snd kv \<noteq> PNone)
                        (explicit_kwargs a esp @ run_config a))"
      by simp
    also have "\<dots> = get_run_config s (explicit_kwargs a esp @ run_config a)"
      by (simp only: get_run_config_filter)
    finally show "get_run_config s (explicit_kwargs a esp @ run_config ?a') =
      get_run_config s (explicit_kwargs a esp @ run_config a)" .
  qed
  show ?thesis
    unfolding run_checked_def Let_def ex ck ck' sum.case g
    by (simp add: submit_circuits_run_config
             cong: option.case_cong sum.case_cong prod.case_cong if_cong)
qed

lemma run_filtered:
  assumes "set (map fst (run_config a)) \<inter> set (map fst (explicit_kwargs a esp)) = {}"
  shows "run e self (a\<lparr>run_config := filter (\<lambda>kv. snd kv \<noteq> PNone) (run_config a)\<rparr>) =
         run e self a"
proof -
  have "\<And>b. set (map fst (run_config a)) \<inter> set (map fst (explicit_kwargs a b)) = {}"
    using assms by (simp add: explicit_kwargs_keys)
  then have "\<And>b. run_checked e self
        (a\<lparr>run_config := filter (\<lambda>kv. snd kv \<noteq> PNone) (run_config a)\<rparr>) b =
      run_checked e self a b"
    by (rule run_checked_filtered)
  then show ?thesis
    by (simp add: run_def Let_def cong: sum.case_cong if_cong)
qed

text \<open>
  C10, amended. Take a call of \<open>run\<close> that reaches \<open>_get_run_config\<close>: the job
  tags are well formed, the check of ESP readout passes with \<open>use_measure_esp\<close>
  resolved to \<open>esp\<close>, the replacement of \<open>id\<close> instructions completes, and no
  extra keyword repeats a keyword that \<open>run\<close> passes itself. Then \<open>run\<close> continues
  with the run configuration \<open>rc\<close> made from the dictionary \<open>rc0\<close> that
  \<open>_get_run_config\<close> returns, and it returns exactly what the same call without
  the extra keywords given as \<open>None\<close> returns. For every keyword that reaches
  \<open>_get_run_config\<close> with the value \<open>None\<close> (a named option left or given as
  \<open>None\<close>, or an extra keyword), \<open>rc0\<close> holds what \<open>self.options\<close> holds for
  that key, or no entry when the options have none; so does \<open>rc\<close> unless the key is
  \<open>parameter_binds\<close> or \<open>method\<close>, which \<open>run\<close> may set afterwards; and the call
  adds no warning about the key. A key whose stored option is not \<open>None\<close> never
  ends as \<open>None\<close> or without an entry. The option \<open>use_measure_esp\<close> is never
  passed as \<open>None\<close>: the run configuration holds the resolved value \<open>esp\<close> for it,
  whatever the stored option.
\<close>

theorem run_none_options:
  assumes "well_formed_tags (job_tags a)"
    and "esp = (case use_measure_esp a of
                  None \<Rightarrow> getattr_bool (measure_esp_enabled (configuration self)) False
                | Some b \<Rightarrow> b)"
    and "esp \<longrightarrow> getattr_bool (measure_esp_enabled (configuration self)) False"
    and "(if \<not> simulator (configuration self)
          then deprecate_id_instruction e self (circuits a)
          else (Inr (), self, circuits a)) = (Inr u, self1, c1)"
    and "distinct (map fst (run_config a))"
    and "set (map fst (run_config a)) \<inter> set (map fst (explicit_kwargs a esp)) = {}"
    and "kwargs = explicit_kwargs a esp @ run_config a"
    and "get_run_config self1 kwargs = (rc0, self2)"
    and "rc = final_run_config (configuration self) a rc0"
  shows "run e self a =
           (case submit_circuits e self2 a c1 rc of (r, self3) \<Rightarrow> (r, self3, c1)) \<and>
         run e self (a\<lparr>run_config := filter (\<lambda>kv. snd kv \<noteq> PNone) (run_config a)\<rparr>) =
           run e self a \<and>
         ((k, PNone) \<in> set kwargs \<longrightarrow>
            map_of rc0 k = map_of (options self) k \<and>
            (k \<noteq> ''parameter_binds'' \<and> k \<noteq> ''method'' \<longrightarrow>
               map_of rc k = map_of (options self) k) \<and>
            count_list (warnings (fst (snd (run e self a)))) (UserWarning (unrecognized_msg k)) =
              count_list (warnings self) (UserWarning (unrecognized_msg k))) \<and>
         (map_of (options self) k' = Some v \<and> v \<noteq> PNone \<longrightarrow>
            map_of rc0 k' \<noteq> Some PNone \<and> map_of rc0 k' \<noteq> None \<and>
            map_of rc k' \<noteq> Some PNone \<and> map_of rc k' \<noteq> None) \<and>
         map_of rc0 ''use_measure_esp'' = Some (PBool esp) \<and>
         map_of rc ''use_measure_esp'' = Some (PBool esp)"
proof -
  have g: "rc0 = fst (get_run_config self1 kwargs)" "self2 = snd (get_run_config self1 kwargs)"
    using assms(8) by simp_all
  have s1: "options self1 = options self \<and>
      (\<forall>m. count_list (warnings self1) (UserWarning m) = count_list (warnings self) (UserWarning m))"
  proof (cases "simulator (configuration self)")
    case True
    then show ?thesis using assms(4) by simp
  next
    case False
    then have "deprecate_id_instruction e self (circuits a) = (Inr u, self1, c1)"
      using assms(4) by simp
    then show ?thesis using deprecate_user_warnings by blast
  qed
  have d: "distinct (map fst kwargs)"
    unfolding assms(7) using assms(5,6) by (rule kwargs_distinct)
  have 1: "run e self a =
      (case submit_circuits e self2 a c1 rc of (r, self3) \<Rightarrow> (r, self3, c1))"
    using run_reaches_config[OF assms(1,2,3,4,6)] assms(7,9) g by simp
  have 2: "run e self (a\<lparr>run_config := filter (\<lambda>kv. snd kv \<noteq> PNone) (run_config a)\<rparr>) =
      run e self a"
    using assms(6) by (rule run_filtered)
  have w: "warnings (fst (snd (run e self a))) = warnings self2"
    using 1 submit_circuits_warnings[of e self2 a c1 rc]
    by (cases "submit_circuits e self2 a c1 rc") simp
  have 3: "(k, PNone) \<in> set kwargs \<longrightarrow>
            map_of rc0 k = map_of (options self) k \<and>
            (k \<noteq> ''parameter_binds'' \<and> k \<noteq> ''method'' \<longrightarrow>
               map_of rc k = map_of (options self) k) \<and>
            count_list (warnings (fst (snd (run e self a)))) (UserWarning (unrecognized_msg k)) =
              count_list (warnings self) (UserWarning (unrecognized_msg k))"
  proof
    assume k: "(k, PNone) \<in> set kwargs"
    have a: "map_of rc0 k = map_of (options self) k"
      and b: "count_list (warnings self2) (UserWarning (unrecognized_msg k)) =
              count_list (warnings self) (UserWarning (unrecognized_msg k))"
      using get_run_config_none[OF d k, of self1] g s1 by simp_all
    have c: "k \<noteq> ''parameter_binds'' \<and> k \<noteq> ''method'' \<longrightarrow>
               map_of rc k = map_of (options self) k"
      using a assms(9) by (simp add: final_run_config_other)
    show "map_of rc0 k = map_of (options self) k \<and>
            (k \<noteq> ''parameter_binds'' \<and> k \<noteq> ''method'' \<longrightarrow>
               map_of rc k = map_of (options self) k) \<and>
            count_list (warnings (fst (snd (run e self a)))) (UserWarning (unrecognized_msg k)) =
              count_list (warnings self) (UserWarning (unrecognized_msg k))"
      using a b c w by simp
  qed
  have 4: "map_of (options self) k' = Some v \<and> v \<noteq> PNone \<longrightarrow>
            map_of rc0 k' \<noteq> Some PNone \<and> map_of rc0 k' \<noteq> None \<and>
            map_of rc k' \<noteq> Some PNone \<and> map_of rc k' \<noteq> None"
  proof
    assume h: "map_of (options self) k' = Some v \<and> v \<noteq> PNone"
    then have "map_of (options self1) k' = Some v" "v \<noteq> PNone" using s1 by simp_all
    then have a: "map_of rc0 k' \<noteq> Some PNone \<and> map_of rc0 k' \<noteq> None"
      using get_run_config_keeps[of self1 k' v kwargs] g by simp
    then have "map_of rc k' \<noteq> Some PNone \<and> map_of rc k' \<noteq> None"
      unfolding assms(9) using final_run_config_keeps by blast
    then show "map_of rc0 k' \<noteq> Some PNone \<and> map_of rc0 k' \<noteq> None \<and>
            map_of rc k' \<noteq> Some PNone \<and> map_of rc k' \<noteq> None"
      using a by simp
  qed
  have "(''use_measure_esp'', PBool esp) \<in> set kwargs"
    unfolding assms(7) by (simp add: explicit_kwargs_def)
  then have 5: "map_of rc0 ''use_measure_esp'' = Some (PBool esp)"
    using get_run_config_given[OF d, of "''use_measure_esp''" "PBool esp" self1] g by simp
  then have 6: "map_of rc ''use_measure_esp'' = Some (PBool esp)"
    using assms(9) by (simp add: final_run_config_other)
  show ?thesis using 1 2 3 4 5 6 by blast
qed

theorem run_none_options_witness:
  "well_formed_tags (job_tags args1) \<and>
   distinct (map fst (run_config args1)) \<and>
   (''foo'', PNone) \<in> set (explicit_kwargs args1 False @ run_config args1) \<and>
   (''shots'', PNone) \<in> set (explicit_kwargs args1 False @ run_config args1) \<and>
   map_of (options backend0) ''shots'' = Some (PInt 4000) \<and>
   fst (run (env0 PNone) backend0 args1) =
     Inr (IBMCircuitJob
            (Qobj (PDict
               [(''shots'', PInt 4000), (''memory'', PBool True),
                (''qubit_lo_freq'', PNone), (''meas_lo_freq'', PNone),
                (''schedule_los'', PNone), (''meas_level'', PInt 2),
                (''meas_return'', PStr ''avg''), (''memory_slots'', PNone),
                (''memory_slot_size'', PInt 100), (''rep_time'', PNone),
                (''rep_delay'', PNone), (''init_qubits'', PBool True),
                (''use_measure_esp'', PBool False),
                (''live_data_enabled'', PNone), (''bar'', PInt 1)]))
            [(''job_id'', PStr ''j1'')]) \<and>
   warnings (fst (snd (run (env0 PNone) backend0 args1))) =
     [UserWarning (unrecognized_msg ''bar'')] \<and>
   run (env0 PNone) backend0 (args1\<lparr>run_config := [(''bar'', PInt 1)]\<rparr>) =
     run (env0 PNone) backend0 args1"
  using run_none_options
      [where a = args1 and self = backend0 and e = "env0 PNone" and esp = False
         and u = "()" and ?self1.0 = backend0 and ?c1.0 = "One (Schedule 7)"
         and kwargs = "explicit_kwargs args1 False @ run_config args1"
         and ?rc0.0 = "fst (get_run_config backend0
                              (explicit_kwargs args1 False @ run_config args1))"
         and ?self2.0 = "snd (get_run_config backend0
                              (explicit_kwargs args1 False @ run_config args1))"
         and rc = "final_run_config (configuration backend0) args1
                     (fst (get_run_config backend0
                              (explicit_kwargs args1 False @ run_config args1)))"
         and k = "''foo''" and k' = "''shots''" and v = "PInt 4000"]
    run_none_options
      [where a = args1 and self = backend0 and e = "env0 PNone" and esp = False
         and u = "()" and ?self1.0 = backend0 and ?c1.0 = "One (Schedule 7)"
         and kwargs = "explicit_kwargs args1 False @ run_config args1"
         and ?rc0.0 = "fst (get_run_config backend0
                              (explicit_kwargs args1 False @ run_config args1))"
         and ?self2.0 = "snd (get_run_config backend0
                              (explicit_kwargs args1 False @ run_config args1))"
         and rc = "final_run_config (configuration backend0) args1
                     (fst (get_run_config backend0
                              (explicit_kwargs args1 False @ run_config args1)))"
         and k = "''shots''" and k' = "''shots''" and v = "PInt 4000"]
  by (simp add: eval_defs args1_def final_run_config_def)

text \<open>
  C10 as stated fails for \<open>use_measure_esp\<close>: given as \<open>None\<close> it is not dropped.
  \<open>run\<close> replaces it by the configuration's \<open>measure_esp_enabled\<close> (\<open>False\<close> when
  the configuration has none) and passes that value on, so the run configuration
  holds \<open>False\<close> where the default options hold \<open>None\<close>, and where the stored
  options hold \<open>True\<close>. The extra keyword \<open>qobj_header=None\<close> is not dropped
  either: it repeats the keyword \<open>run\<close> passes for \<open>header\<close> and the call raises
  \<open>TypeError\<close>.
\<close>

theorem run_none_use_measure_esp:
  "use_measure_esp (args0 (One (Schedule 7))) = None \<and>
   map_of (options backend0) ''use_measure_esp'' = Some PNone \<and>
   fst (run (env0 PNone) backend0 (args0 (One (Schedule 7)))) =
     Inr (IBMCircuitJob
            (Qobj (PDict (AList.update ''use_measure_esp'' (PBool False) default_options)))
            [(''job_id'', PStr ''j1'')]) \<and>
   map_of (options backend2) ''use_measure_esp'' = Some (PBool True) \<and>
   fst (run (env0 PNone) backend2 (args0 (One (Schedule 7)))) =
     Inr (IBMCircuitJob
            (Qobj (PDict (AList.update ''use_measure_esp'' (PBool False) default_options)))
            [(''job_id'', PStr ''j1'')]) \<and>
   map_of (AList.update ''use_measure_esp'' (PBool False) default_options) ''use_measure_esp'' =
     Some (PBool False) \<and>
   header ((args0 (One (Schedule 7)))\<lparr>run_config := [(''qobj_header'', PNone)]\<rparr>) = PNone \<and>
   fst (run (env0 PNone) backend0
          ((args0 (One (Schedule 7)))\<lparr>run_config := [(''qobj_header'', PNone)]\<rparr>)) =
     Inl (TypeError (''_get_run_config() got multiple values for keyword argument '' @
                     [CHR 0x27] @ ''qobj_header'' @ [CHR 0x27]))"
  by (simp add: eval_defs backend2_def)

end
